theory Spec2Isabelle
  imports Complex_Main "HOL-Library.Sublist" "HOL-Library.AList"
begin

section \<open>Python values read from the dbt artifacts\<close>

text \<open>
  The artifacts (manifest, run results, catalog, profile) are whatever \<^verbatim>\<open>json.load\<close> and
  \<^verbatim>\<open>yaml.load\<close> return: nested dictionaries, lists, strings, numbers, booleans and
  \<^verbatim>\<open>None\<close>. The processor never checks their shape, so the model keeps them untyped.
  A dictionary is an association list in insertion order; its keys are distinct in Python,
  and a lookup reads the first binding. A float is kept by its mathematical value.
\<close>

datatype pyfloat = Finite rat | PosInf | NegInf | NaN

datatype json =
    JNull
  | JBool bool
  | JInt int
  | JFloat pyfloat
  | JStr string
  | JArr "json list"
  | JObj "(string \<times> json) list"

text \<open>
  The exceptions the processor can raise. The first six are raised by Python itself on
  ill-shaped data; the others are the processor's own \<^verbatim>\<open>raise\<close> statements.
\<close>

datatype error =
    KeyError json
  | TypeError
  | AttributeError
  | IndexError
  | ValueError
  | OverflowError
  | UnsupportedAdapter json   \<comment> \<open>\<^verbatim>\<open>NotImplementedError\<close> of \<^verbatim>\<open>extract_namespace\<close>\<close>
  | UnrecognizedStatus json   \<comment> \<open>\<^verbatim>\<open>ValueError\<close> of \<^verbatim>\<open>_to_openlineage_events\<close>\<close>
  | OrphanTest json           \<comment> \<open>\<^verbatim>\<open>ValueError\<close> of \<^verbatim>\<open>parse_test\<close>\<close>
  | UnrecognizedCommand json  \<comment> \<open>\<^verbatim>\<open>ValueError\<close> of \<^verbatim>\<open>parse\<close>\<close>
  | Wrapped error             \<comment> \<open>\<^verbatim>\<open>ValueError(e)\<close> of \<^verbatim>\<open>to_openlineage_events\<close>\<close>

text \<open>Sequencing of computations that may raise: the first exception ends the run.\<close>

definition bind :: "error + 'a \<Rightarrow> ('a \<Rightarrow> error + 'b) \<Rightarrow> error + 'b" where
  "bind m f = (case m of Inl e \<Rightarrow> Inl e | Inr v \<Rightarrow> f v)"

text \<open>A list comprehension whose element expression may raise, evaluated left to right.\<close>

fun mapE :: "('a \<Rightarrow> error + 'b) \<Rightarrow> 'a list \<Rightarrow> error + 'b list" where
  "mapE f [] = Inr []"
| "mapE f (x # xs) = bind (f x) (\<lambda>y. bind (mapE f xs) (\<lambda>ys. Inr (y # ys)))"

text \<open>\<^verbatim>\<open>bool(x)\<close>: the truth value of \<^verbatim>\<open>if x:\<close>.\<close>

fun truthy :: "json \<Rightarrow> bool" where
  "truthy JNull = False"
| "truthy (JBool b) = b"
| "truthy (JInt n) = (n \<noteq> 0)"
| "truthy (JFloat f) = (f \<noteq> Finite 0)"
| "truthy (JStr s) = (s \<noteq> [])"
| "truthy (JArr xs) = (xs \<noteq> [])"
| "truthy (JObj kvs) = (kvs \<noteq> [])"

text \<open>\<^verbatim>\<open>d['k']\<close> with a string key: only a dictionary can be subscripted by a string.\<close>

fun getitem :: "json \<Rightarrow> string \<Rightarrow> error + json" where
  "getitem (JObj kvs) k =
     (case map_of kvs k of None \<Rightarrow> Inl (KeyError (JStr k)) | Some v \<Rightarrow> Inr v)"
| "getitem _ k = Inl TypeError"

text \<open>\<^verbatim>\<open>xs[i]\<close> on a sequence: negative indices count from the end.\<close>

definition index :: "'a list \<Rightarrow> int \<Rightarrow> error + 'a" where
  "index xs i =
     (if 0 \<le> i \<and> i < int (length xs) then Inr (xs ! nat i)
      else if i < 0 \<and> - int (length xs) \<le> i then Inr (xs ! nat (int (length xs) + i))
      else Inl IndexError)"

text \<open>
  \<^verbatim>\<open>d[k]\<close> where the key is itself a value of the artifact. The keys of a dictionary
  read from JSON are strings, so no other hashable key is found; lists and dictionaries
  are unhashable; a list or string is indexed by an integer (\<^verbatim>\<open>bool\<close> is an integer).
\<close>

fun subscript :: "json \<Rightarrow> json \<Rightarrow> error + json" where
  "subscript (JObj kvs) (JStr k) = getitem (JObj kvs) k"
| "subscript (JObj kvs) (JArr _) = Inl TypeError"
| "subscript (JObj kvs) (JObj _) = Inl TypeError"
| "subscript (JObj kvs) k = Inl (KeyError k)"
| "subscript (JArr xs) (JInt i) = index xs i"
| "subscript (JArr xs) (JBool b) = index xs (if b then 1 else 0)"
| "subscript (JStr s) (JInt i) = bind (index s i) (\<lambda>c. Inr (JStr [c]))"
| "subscript (JStr s) (JBool b) = bind (index s (if b then 1 else 0)) (\<lambda>c. Inr (JStr [c]))"
| "subscript _ _ = Inl TypeError"

text \<open>\<^verbatim>\<open>for x in v\<close>: a dictionary yields its keys, a string its characters.\<close>

fun iterate :: "json \<Rightarrow> error + json list" where
  "iterate (JArr xs) = Inr xs"
| "iterate (JObj kvs) = Inr (map (\<lambda>kv. JStr (fst kv)) kvs)"
| "iterate (JStr s) = Inr (map (\<lambda>c. JStr [c]) s)"
| "iterate _ = Inl TypeError"

text \<open>\<^verbatim>\<open>d.items()\<close> and \<^verbatim>\<open>d.values()\<close>: methods of dictionaries only.\<close>

fun items :: "json \<Rightarrow> error + (string \<times> json) list" where
  "items (JObj kvs) = Inr kvs"
| "items _ = Inl AttributeError"

fun values_of :: "json \<Rightarrow> error + json list" where
  "values_of (JObj kvs) = Inr (map snd kvs)"
| "values_of _ = Inl AttributeError"

text \<open>\<^verbatim>\<open>s.startswith(p)\<close>: a method of strings only.\<close>

fun startswith :: "json \<Rightarrow> string \<Rightarrow> error + bool" where
  "startswith (JStr s) p = Inr (prefix p s)"
| "startswith _ p = Inl AttributeError"

text \<open>
  \<^verbatim>\<open>'k' in v\<close>: key membership for a dictionary, element membership for a list,
  substring test for a string; other values are not containers.
\<close>

fun contains :: "json \<Rightarrow> string \<Rightarrow> error + bool" where
  "contains (JObj kvs) k = Inr (k \<in> set (map fst kvs))"
| "contains (JArr xs) k = Inr (JStr k \<in> set xs)"
| "contains (JStr s) k = Inr (list_ex (prefix k) (suffixes s))"
| "contains _ k = Inl TypeError"

subsection \<open>Numeric coercion: \<^verbatim>\<open>int(x)\<close>\<close>

definition is_space :: "char \<Rightarrow> bool" where
  "is_space c = (c \<in> set [CHR '' '', CHR 0x09, CHR 0x0A, CHR 0x0B, CHR 0x0C, CHR 0x0D,
                             CHR 0x1C, CHR 0x1D, CHR 0x1E, CHR 0x1F])"

definition is_digit :: "char \<Rightarrow> bool" where
  "is_digit c = (48 \<le> (of_char c :: nat) \<and> (of_char c :: nat) \<le> 57)"

definition digit_val :: "char \<Rightarrow> int" where
  "digit_val c = int (of_char c) - 48"

text \<open>
  The digits of a decimal literal, most significant first. Python allows one underscore
  between two digits.
\<close>

fun digits :: "int \<Rightarrow> string \<Rightarrow> int option" where
  "digits acc [] = Some acc"
| "digits acc [c] = (if is_digit c then Some (10 * acc + digit_val c) else None)"
| "digits acc (c # d # cs) =
     (if \<not> is_digit c then None
      else if d = CHR ''_'' then (if cs = [] then None else digits (10 * acc + digit_val c) cs)
      else digits (10 * acc + digit_val c) (d # cs))"

definition strip :: "string \<Rightarrow> string" where
  "strip s = rev (dropWhile is_space (rev (dropWhile is_space s)))"

definition int_of_str :: "string \<Rightarrow> error + int" where
  "int_of_str s =
     (let t = strip s;
          (neg, body) = (case t of
              c # cs \<Rightarrow> if c = CHR ''-'' then (True, cs)
                        else if c = CHR ''+'' then (False, cs) else (False, t)
            | [] \<Rightarrow> (False, t))
      in if body = [] then Inl ValueError
         else (case digits 0 body of
                 None \<Rightarrow> Inl ValueError
               | Some n \<Rightarrow> Inr (if neg then - n else n)))"

definition truncate :: "rat \<Rightarrow> int" where
  "truncate r = (if 0 \<le> r then \<lfloor>r\<rfloor> else \<lceil>r\<rceil>)"

fun py_int :: "json \<Rightarrow> error + int" where
  "py_int (JInt n) = Inr n"
| "py_int (JBool b) = Inr (if b then 1 else 0)"
| "py_int (JFloat (Finite r)) = Inr (truncate r)"
| "py_int (JFloat NaN) = Inl ValueError"
| "py_int (JFloat _) = Inl OverflowError"
| "py_int (JStr s) = int_of_str s"
| "py_int _ = Inl TypeError"

section \<open>The client's event classes\<close>

text \<open>
  The classes of \<^verbatim>\<open>openlineage.client\<close> that the processor instantiates, as plain data:
  one constructor per class, its arguments in the order of the class's attributes. A facet
  dictionary is an association list from facet name to facet; an attribute the processor
  leaves out takes the class's default (an empty dictionary, or \<^verbatim>\<open>None\<close>).

  The processor builds names with f-strings over values of the artifacts. Such a string is
  kept as its pieces, literal text and interpolated values, in order; \<^verbatim>\<open>str\<close> of a value
  that is itself a string is that string.
\<close>

datatype part = Lit string | Val json

type_synonym fstring = "part list"

text \<open>
  The string that such an f-string evaluates to, when every interpolated value is a
  string (\<^verbatim>\<open>str\<close> of the other values is not modelled).
\<close>

fun rendered :: "fstring \<Rightarrow> string option" where
  "rendered [] = Some []"
| "rendered (Lit s # ps) = map_option (\<lambda>t. s @ t) (rendered ps)"
| "rendered (Val (JStr s) # ps) = map_option (\<lambda>t. s @ t) (rendered ps)"
| "rendered (Val v # ps) = None"

text \<open>
  An event time is a value copied from the artifact, or the wall clock
  (\<^verbatim>\<open>datetime.now(timezone.utc).isoformat()\<close>).
\<close>

datatype stamp = FromArtifact json | Now

datatype schema_field = SchemaField (field_name: json) (field_type: json) (description: json)

datatype assertion = Assertion (assertion: json) (success: bool) (column: json)

datatype dataset_facet =
    DataSourceDatasetFacet fstring fstring
  | SchemaDatasetFacet "schema_field list"
  | DataQualityAssertionsDatasetFacet "assertion list"

datatype job_facet = SqlJobFacet json

datatype output_facet = OutputStatisticsOutputDatasetFacet (rowCount: int) (facet_size: json)

datatype dataset =
  Dataset (ds_namespace: fstring) (ds_name: fstring) (ds_facets: "(string \<times> dataset_facet) list")

datatype output_dataset =
  OutputDataset (out_namespace: fstring) (out_name: fstring)
    (out_facets: "(string \<times> dataset_facet) list")
    (outputFacets: "(string \<times> output_facet) list")

datatype run_state = START | COMPLETE | FAIL

text \<open>
  \<^verbatim>\<open>str(uuid.uuid4())\<close> is modelled by the ordinal of the call: two calls never return the
  same identifier.
\<close>

datatype run = Run (runId: nat)

datatype job = Job (job_ns: fstring) (job_nm: fstring) (job_facets: "(string \<times> job_facet) list")

datatype run_event =
  RunEvent (eventType: run_state) (eventTime: stamp) (event_run: run) (event_job: job)
    (event_producer: string) (event_inputs: "dataset list")
    (event_outputs: "output_dataset list")

section \<open>The processor's own classes\<close>

record ModelNode =
  metadata_node :: json
  catalog_node :: json

text \<open>
  The attribute \<^verbatim>\<open>output\<close> of \<^verbatim>\<open>DbtRun\<close> is the field \<open>run_output\<close> (the bare word
  is reserved in Isabelle).
\<close>

record DbtRun =
  started_at :: stamp
  completed_at :: stamp
  status :: json
  inputs :: "ModelNode list"
  run_output :: "ModelNode option"
  job_name :: fstring
  namespace :: fstring
  run_id :: nat

record DbtEvents =
  starts :: "run_event list"
  completes :: "run_event list"
  fails :: "run_event list"

definition events :: "DbtEvents \<Rightarrow> run_event list" where
  "events self = starts self @ completes self @ fails self"

record DbtRunResult =
  start :: run_event
  complete :: "run_event option"
  fail :: "run_event option"

text \<open>The attributes of \<^verbatim>\<open>DbtArtifactProcessor\<close> that the translation reads.\<close>

record DbtArtifactProcessor =
  producer :: string
  job_namespace :: fstring
  dataset_namespace :: fstring
  skip_errors :: bool

section \<open>Optional-chain lookups\<close>

text \<open>
  Modelled from the spec: \<^verbatim>\<open>get_from_nullable_chain\<close> of \<^verbatim>\<open>openlineage.common.utils\<close>,
  which the sources do not include. The spec describes it as an optional-path lookup that
  returns an absent value rather than failing, composed left to right over a fixed key
  sequence.
\<close>

fun get_from_nullable_chain :: "json \<Rightarrow> json list \<Rightarrow> json" where
  "get_from_nullable_chain source [] = source"
| "get_from_nullable_chain (JObj kvs) (JStr k # keys) =
     (case map_of kvs k of None \<Rightarrow> JNull | Some v \<Rightarrow> get_from_nullable_chain v keys)"
| "get_from_nullable_chain _ (k # keys) = JNull"

text \<open>
  Modelled from the spec: \<^verbatim>\<open>get_from_multiple_chains\<close> of \<^verbatim>\<open>openlineage.common.utils\<close>,
  which the sources do not include. The spec describes alternate key paths tried in a fixed
  priority order: the first path that is present gives the value.
\<close>

fun get_from_multiple_chains :: "json \<Rightarrow> json list list \<Rightarrow> json" where
  "get_from_multiple_chains source [] = JNull"
| "get_from_multiple_chains source (keys # others) =
     (let result = get_from_nullable_chain source keys
      in if result \<noteq> JNull then result else get_from_multiple_chains source others)"

section \<open>Datasets and their facets\<close>

text \<open>The body of the loop of \<^verbatim>\<open>extract_metadata_fields\<close>, for one column.\<close>

definition metadata_field :: "json \<Rightarrow> error + schema_field" where
  "metadata_field field =
     bind (contains field ''data_type'') (\<lambda>has_type.
     bind (if has_type
           then bind (getitem field ''data_type'') (\<lambda>v. Inr (if v \<noteq> JNull then v else JNull))
           else Inr JNull) (\<lambda>type.
     bind (getitem field ''name'') (\<lambda>name.
     Inr (SchemaField name type JNull))))"

definition extract_metadata_fields :: "json list \<Rightarrow> error + schema_field list" where
  "extract_metadata_fields columns = mapE metadata_field columns"

text \<open>The body of the loop of \<^verbatim>\<open>extract_catalog_fields\<close>, for one column.\<close>

definition catalog_field :: "json \<Rightarrow> error + schema_field" where
  "catalog_field field =
     bind (contains field ''type'') (\<lambda>has_type.
     bind (if has_type
           then bind (getitem field ''type'') (\<lambda>v. Inr (if v \<noteq> JNull then v else JNull))
           else Inr JNull) (\<lambda>type.
     bind (contains field ''column'') (\<lambda>has_column.
     bind (if has_column
           then bind (getitem field ''column'') (\<lambda>v. Inr (if v \<noteq> JNull then v else JNull))
           else Inr JNull) (\<lambda>description.
     bind (getitem field ''name'') (\<lambda>name.
     Inr (SchemaField name type description))))))"

definition extract_catalog_fields :: "json list \<Rightarrow> error + schema_field list" where
  "extract_catalog_fields columns = mapE catalog_field columns"

definition extract_dataset_data ::
  "DbtArtifactProcessor \<Rightarrow> ModelNode \<Rightarrow> bool \<Rightarrow>
     error + (fstring \<times> fstring \<times> (string \<times> dataset_facet) list)" where
  "extract_dataset_data self node has_facets =
     bind (if has_facets then
             bind (getitem (metadata_node node) ''columns'') (\<lambda>columns.
             bind (values_of columns) (\<lambda>vs.
             bind (extract_metadata_fields vs) (\<lambda>fields.
             let facets =
               [(''dataSource'',
                   DataSourceDatasetFacet (dataset_namespace self) (dataset_namespace self)),
                (''schema'', SchemaDatasetFacet fields)]
             in if truthy (catalog_node node) then
                  bind (getitem (catalog_node node) ''columns'') (\<lambda>ccolumns.
                  bind (values_of ccolumns) (\<lambda>cvs.
                  bind (extract_catalog_fields cvs) (\<lambda>cfields.
                  Inr (AList.update ''schema'' (SchemaDatasetFacet cfields) facets))))
                else Inr facets)))
           else Inr []) (\<lambda>facets.
     bind (getitem (metadata_node node) ''database'') (\<lambda>db.
     bind (getitem (metadata_node node) ''schema'') (\<lambda>sc.
     bind (getitem (metadata_node node) ''name'') (\<lambda>nm.
     Inr (dataset_namespace self, [Val db, Lit ''.'', Val sc, Lit ''.'', Val nm], facets)))))"

definition node_to_dataset ::
  "DbtArtifactProcessor \<Rightarrow> ModelNode \<Rightarrow> bool \<Rightarrow> error + dataset" where
  "node_to_dataset self node has_facets =
     bind (extract_dataset_data self node has_facets) (\<lambda>(a, b, c). Inr (Dataset a b c))"

text \<open>
  The byte count and the row count that \<^verbatim>\<open>node_to_output_dataset\<close> reads from a catalog
  entry: the BigQuery path first, then the Snowflake path.
\<close>

definition stats_bytes :: "json \<Rightarrow> json" where
  "stats_bytes catalog =
     get_from_multiple_chains catalog
       [[JStr ''stats'', JStr ''num_bytes'', JStr ''value''],
        [JStr ''stats'', JStr ''bytes'', JStr ''value'']]"

definition stats_rows :: "json \<Rightarrow> json" where
  "stats_rows catalog =
     get_from_multiple_chains catalog
       [[JStr ''stats'', JStr ''num_rows'', JStr ''value''],
        [JStr ''stats'', JStr ''row_count'', JStr ''value'']]"

text \<open>
  What \<^verbatim>\<open>node_to_output_dataset\<close> does with the two counts once they are read: each is
  coerced by \<^verbatim>\<open>int\<close> if it is true, and the facet is created inside the \<^verbatim>\<open>if rows:\<close>
  block. The result is the dictionary \<^verbatim>\<open>output_facets\<close>.
\<close>

definition output_statistics :: "json \<Rightarrow> json \<Rightarrow> error + (string \<times> output_facet) list" where
  "output_statistics bytes rows =
     bind (if truthy bytes then bind (py_int bytes) (\<lambda>n. Inr (JInt n))
           else Inr bytes) (\<lambda>bytes.
     if truthy rows then
       bind (py_int rows) (\<lambda>rows.
       Inr [(''outputStatistics'', OutputStatisticsOutputDatasetFacet rows bytes)])
     else Inr [])"

text \<open>
  \<^verbatim>\<open>node_to_output_dataset\<close> unpacks the triple into variables called \<^verbatim>\<open>name, namespace,
  facets\<close> and passes them on in that order, so the namespace still comes first.
\<close>

definition node_to_output_dataset ::
  "DbtArtifactProcessor \<Rightarrow> ModelNode \<Rightarrow> bool \<Rightarrow> error + output_dataset" where
  "node_to_output_dataset self node has_facets =
     bind (extract_dataset_data self node has_facets) (\<lambda>(name, namespace, facets).
     bind (if has_facets \<and> truthy (catalog_node node) then
             let bytes = stats_bytes (catalog_node node);
                 rows = stats_rows (catalog_node node)
             in output_statistics bytes rows
           else Inr []) (\<lambda>output_facets.
     Inr (OutputDataset name namespace facets output_facets)))"

section \<open>The event builder\<close>

text \<open>
  \<^verbatim>\<open>run.output.metadata_node['compiled_sql']\<close>: reading an attribute of \<^verbatim>\<open>None\<close> raises
  \<^verbatim>\<open>AttributeError\<close>.
\<close>

definition compiled_sql :: "DbtRun \<Rightarrow> error + json" where
  "compiled_sql run =
     (case run_output run of
        None \<Rightarrow> Inl AttributeError
      | Some node \<Rightarrow> getitem (metadata_node node) ''compiled_sql'')"

text \<open>
  \<^verbatim>\<open>self.node_to_output_dataset(run.output, has_facets=True)\<close>: the same attribute read on
  \<^verbatim>\<open>None\<close> inside \<^verbatim>\<open>extract_dataset_data\<close>.
\<close>

definition output_dataset_of ::
  "DbtArtifactProcessor \<Rightarrow> ModelNode option \<Rightarrow> bool \<Rightarrow> error + output_dataset" where
  "output_dataset_of self node has_facets =
     (case node of
        None \<Rightarrow> Inl AttributeError
      | Some n \<Rightarrow> node_to_output_dataset self n has_facets)"

definition to_openlineage_events_inner ::
  "DbtArtifactProcessor \<Rightarrow> DbtRun \<Rightarrow> error + DbtRunResult option" where
  "to_openlineage_events_inner self run =
     (if status run = JStr ''skipped'' then Inr None
      else
        bind (mapE (\<lambda>node. node_to_dataset self node False) (inputs run)) (\<lambda>ins.
        bind (if run_output run \<noteq> None
              then bind (output_dataset_of self (run_output run) False) (\<lambda>d. Inr [d])
              else Inr []) (\<lambda>outs.
        let start = RunEvent START (started_at run) (Run (run_id run))
                      (Job (job_namespace self) (job_name run) [])
                      (producer self) ins outs
        in if status run = JStr ''success'' then
             bind (compiled_sql run) (\<lambda>sql.
             bind (mapE (\<lambda>node. node_to_dataset self node True) (inputs run)) (\<lambda>ins'.
             bind (output_dataset_of self (run_output run) True) (\<lambda>out'.
             Inr (Some \<lparr>start = start,
                        complete = Some (RunEvent COMPLETE (completed_at run) (Run (run_id run))
                          (Job (job_namespace self) (job_name run) [(''sql'', SqlJobFacet sql)])
                          (producer self) ins' [out']),
                        fail = None\<rparr>))))
           else if status run = JStr ''error'' then
             bind (compiled_sql run) (\<lambda>sql.
             bind (mapE (\<lambda>node. node_to_dataset self node True) (inputs run)) (\<lambda>ins'.
             Inr (Some \<lparr>start = start,
                        complete = None,
                        fail = Some (RunEvent FAIL (completed_at run) (Run (run_id run))
                          (Job (job_namespace self) (job_name run) [(''sql'', SqlJobFacet sql)])
                          (producer self) ins' [])\<rparr>)))
           else Inl (UnrecognizedStatus (status run)))))"

definition to_openlineage_events ::
  "DbtArtifactProcessor \<Rightarrow> DbtRun \<Rightarrow> error + DbtRunResult option" where
  "to_openlineage_events self run =
     (case to_openlineage_events_inner self run of
        Inl e \<Rightarrow> if skip_errors self then Inr None else Inl (Wrapped e)
      | Inr r \<Rightarrow> Inr r)"

section \<open>Run assembly\<close>

text \<open>
  \<^verbatim>\<open>list(filter(lambda x: x['name'] == 'execute', timings))\<close>: the predicate is applied to
  every element, in order, and may raise.
\<close>

fun execute_timings :: "json list \<Rightarrow> error + json list" where
  "execute_timings [] = Inr []"
| "execute_timings (x # xs) =
     bind (getitem x ''name'') (\<lambda>name.
     bind (execute_timings xs) (\<lambda>rest.
     Inr (if name = JStr ''execute'' then x # rest else rest)))"

text \<open>
  Only the \<^verbatim>\<open>IndexError\<close> of \<^verbatim>\<open>[0]\<close> on an empty list is caught; it selects the wall
  clock for both times.
\<close>

definition get_timings :: "json \<Rightarrow> error + (stamp \<times> stamp)" where
  "get_timings timings =
     bind (iterate timings) (\<lambda>ts.
     bind (execute_timings ts) (\<lambda>found.
     case found of
       [] \<Rightarrow> Inr (Now, Now)
     | timing # _ \<Rightarrow>
         bind (getitem timing ''started_at'') (\<lambda>s.
         bind (getitem timing ''completed_at'') (\<lambda>c.
         Inr (FromArtifact s, FromArtifact c)))))"

definition removeprefix :: "json \<Rightarrow> string \<Rightarrow> error + json" where
  "removeprefix string p =
     (case string of
        JStr s \<Rightarrow> Inr (JStr (if prefix p s then drop (length p) s else s))
      | _ \<Rightarrow> Inl AttributeError)"

text \<open>
  The inner loop of \<^verbatim>\<open>parse_run\<close> over the parents of one executed unit. \<open>nodes\<close> is the
  dictionary that \<^verbatim>\<open>parse\<close> builds, so it is a dictionary whatever the manifest holds.
\<close>

fun input_nodes ::
  "json \<Rightarrow> (string \<times> json) list \<Rightarrow> json \<Rightarrow> json list \<Rightarrow> error + ModelNode list" where
  "input_nodes manifest nodes catalog [] = Inr []"
| "input_nodes manifest nodes catalog (node # rest) =
     (case node of
        JStr s \<Rightarrow>
          if prefix ''model.'' s then
            bind (getitem (JObj nodes) s) (\<lambda>md.
            bind (input_nodes manifest nodes catalog rest) (\<lambda>more.
            Inr (\<lparr>metadata_node = md,
                  catalog_node = get_from_nullable_chain catalog [JStr ''nodes'', node]\<rparr>
                 # more)))
          else if prefix ''source.'' s then
            bind (getitem manifest ''sources'') (\<lambda>sources.
            bind (getitem sources s) (\<lambda>md.
            bind (input_nodes manifest nodes catalog rest) (\<lambda>more.
            Inr (\<lparr>metadata_node = md,
                  catalog_node = get_from_nullable_chain catalog [JStr ''sources'', node]\<rparr>
                 # more))))
          else input_nodes manifest nodes catalog rest
      | _ \<Rightarrow> Inl AttributeError)"

text \<open>
  The body of the first loop of \<^verbatim>\<open>parse_run\<close>, for one execution record; \<open>n\<close> is the
  ordinal of the \<^verbatim>\<open>uuid4\<close> call made by the \<^verbatim>\<open>DbtRun\<close> constructor.
\<close>

definition assemble_run ::
  "DbtArtifactProcessor \<Rightarrow> json \<Rightarrow> json \<Rightarrow> (string \<times> json) list \<Rightarrow> nat \<Rightarrow> json
     \<Rightarrow> error + DbtRun" where
  "assemble_run self manifest catalog nodes n record =
     bind (getitem record ''timing'') (\<lambda>timing.
     bind (get_timings timing) (\<lambda>(started, completed).
     bind (getitem manifest ''parent_map'') (\<lambda>parent_map.
     bind (getitem record ''unique_id'') (\<lambda>uid.
     bind (subscript parent_map uid) (\<lambda>parents.
     bind (iterate parents) (\<lambda>ps.
     bind (input_nodes manifest nodes catalog ps) (\<lambda>ins.
     bind (subscript (JObj nodes) uid) (\<lambda>output_node.
     bind (getitem record ''status'') (\<lambda>st.
     bind (getitem output_node ''database'') (\<lambda>db.
     bind (getitem output_node ''schema'') (\<lambda>sc.
     bind (removeprefix uid ''model.'') (\<lambda>local.
     Inr \<lparr>started_at = started, completed_at = completed, status = st, inputs = ins,
          run_output = Some \<lparr>metadata_node = output_node,
                              catalog_node = get_from_nullable_chain catalog [JStr ''nodes'', uid]\<rparr>,
          job_name = [Val db, Lit ''.'', Val sc, Lit ''.'', Val local],
          namespace = dataset_namespace self,
          run_id = n\<rparr>))))))))))))"

fun assemble_runs ::
  "DbtArtifactProcessor \<Rightarrow> json \<Rightarrow> json \<Rightarrow> (string \<times> json) list \<Rightarrow> nat \<Rightarrow> json list
     \<Rightarrow> error + DbtRun list" where
  "assemble_runs self manifest catalog nodes n [] = Inr []"
| "assemble_runs self manifest catalog nodes n (record # rest) =
     bind (assemble_run self manifest catalog nodes n record) (\<lambda>r.
     bind (assemble_runs self manifest catalog nodes (Suc n) rest) (\<lambda>rs.
     Inr (r # rs)))"

text \<open>
  The second loop of \<^verbatim>\<open>parse_run\<close>. The three lists grow by \<^verbatim>\<open>append\<close>; a result and
  an event are objects, hence true, so only \<^verbatim>\<open>None\<close> takes the other branch.
\<close>

fun translate_runs ::
  "DbtArtifactProcessor \<Rightarrow> DbtRun list
     \<Rightarrow> run_event list \<times> run_event list \<times> run_event list \<Rightarrow> error + DbtEvents" where
  "translate_runs self [] (start_events, complete_events, fail_events) =
     Inr \<lparr>starts = start_events, completes = complete_events, fails = fail_events\<rparr>"
| "translate_runs self (run # runs) (start_events, complete_events, fail_events) =
     bind (to_openlineage_events self run) (\<lambda>results.
     case results of
       None \<Rightarrow> translate_runs self runs (start_events, complete_events, fail_events)
     | Some r \<Rightarrow>
         translate_runs self runs
           (start_events @ [start r],
            (case complete r of Some e \<Rightarrow> complete_events @ [e] | None \<Rightarrow> complete_events),
            (case complete r of
               Some e \<Rightarrow> fail_events
             | None \<Rightarrow> (case fail r of Some e \<Rightarrow> fail_events @ [e] | None \<Rightarrow> fail_events))))"

definition parse_run ::
  "DbtArtifactProcessor \<Rightarrow> json \<Rightarrow> json \<Rightarrow> json \<Rightarrow> (string \<times> json) list \<Rightarrow> nat
     \<Rightarrow> error + DbtEvents" where
  "parse_run self manifest run_results catalog nodes n =
     bind (getitem run_results ''results'') (\<lambda>results.
     bind (iterate results) (\<lambda>records.
     bind (assemble_runs self manifest catalog nodes n records) (\<lambda>runs.
     translate_runs self runs ([], [], []))))"

section \<open>Test aggregation\<close>

text \<open>
  The inner loop of \<^verbatim>\<open>parse_test\<close>: every matching parent overwrites \<^verbatim>\<open>model_node\<close>; the
  loop has no \<^verbatim>\<open>break\<close>.
\<close>

fun find_model_node :: "json list \<Rightarrow> string option \<Rightarrow> error + string option" where
  "find_model_node [] model_node = Inr model_node"
| "find_model_node (node # rest) model_node =
     (case node of
        JStr s \<Rightarrow>
          find_model_node rest
            (if prefix ''model.'' s \<or> prefix ''source.'' s then Some s else model_node)
      | _ \<Rightarrow> Inl AttributeError)"

text \<open>
  The body of the first loop of \<^verbatim>\<open>parse_test\<close>, for one test record. \<^verbatim>\<open>assertions\<close> is a
  \<^verbatim>\<open>defaultdict(list)\<close>: a total function whose default is the empty list, keyed by
  \<^verbatim>\<open>None\<close> or a node id. The assertion is appended before \<^verbatim>\<open>model_node\<close> is checked; the
  exception then discards the dictionary.
\<close>

definition group_assertion ::
  "json \<Rightarrow> (string \<times> json) list \<Rightarrow> json \<Rightarrow> (string option \<Rightarrow> assertion list)
     \<Rightarrow> error + (string option \<Rightarrow> assertion list)" where
  "group_assertion manifest nodes record assertions =
     bind (getitem record ''unique_id'') (\<lambda>uid.
     bind (subscript (JObj nodes) uid) (\<lambda>test_node.
     bind (getitem manifest ''parent_map'') (\<lambda>parent_map.
     bind (subscript parent_map uid) (\<lambda>parents.
     bind (iterate parents) (\<lambda>ps.
     bind (find_model_node ps None) (\<lambda>model_node.
     bind (getitem test_node ''test_metadata'') (\<lambda>meta.
     bind (getitem meta ''name'') (\<lambda>name.
     bind (getitem record ''status'') (\<lambda>st.
     let a = Assertion name (st = JStr ''pass'')
               (get_from_nullable_chain meta [JStr ''kwargs'', JStr ''column_name''])
     in if model_node = None then Inl (OrphanTest test_node)
        else Inr (assertions(model_node := assertions model_node @ [a])))))))))))"

text \<open>The first loop of \<^verbatim>\<open>parse_test\<close>.\<close>

fun group_assertions ::
  "json \<Rightarrow> (string \<times> json) list \<Rightarrow> json list \<Rightarrow> (string option \<Rightarrow> assertion list)
     \<Rightarrow> error + (string option \<Rightarrow> assertion list)" where
  "group_assertions manifest nodes [] assertions = Inr assertions"
| "group_assertions manifest nodes (record # rest) assertions =
     bind (group_assertion manifest nodes record assertions)
       (group_assertions manifest nodes rest)"

text \<open>
  The second loop of \<^verbatim>\<open>parse_test\<close>, over \<^verbatim>\<open>manifest['nodes'].items()\<close>; \<open>n\<close> counts the
  \<^verbatim>\<open>uuid4\<close> calls made so far.
\<close>

fun test_events ::
  "DbtArtifactProcessor \<Rightarrow> (string option \<Rightarrow> assertion list) \<Rightarrow> (string \<times> json) list \<Rightarrow> nat
     \<Rightarrow> run_event list \<times> run_event list \<Rightarrow> error + DbtEvents" where
  "test_events self assertions [] n (sts, cps) =
     Inr \<lparr>starts = sts, completes = cps, fails = []\<rparr>"
| "test_events self assertions ((name, node) # rest) n (sts, cps) =
     (if \<not> prefix ''model.'' name \<and> \<not> prefix ''source.'' name
      then test_events self assertions rest n (sts, cps)
      else if length (assertions (Some name)) = 0
      then test_events self assertions rest n (sts, cps)
      else
        bind (extract_dataset_data self \<lparr>metadata_node = node, catalog_node = JNull\<rparr> False)
          (\<lambda>(ns, dataset_name, unused).
        bind (getitem node ''database'') (\<lambda>db.
        bind (getitem node ''schema'') (\<lambda>sc.
        bind (getitem node ''unique_id'') (\<lambda>uid.
        bind (removeprefix uid ''test.'') (\<lambda>local.
        let job_nm = [Val db, Lit ''.'', Val sc, Lit ''.'', Val local]
        in test_events self assertions rest (Suc n)
             (sts @ [RunEvent START Now (Run n) (Job (job_namespace self) job_nm [])
                       (producer self) [Dataset ns dataset_name []] []],
              cps @ [RunEvent COMPLETE Now (Run n) (Job (job_namespace self) job_nm [])
                       (producer self)
                       [Dataset ns dataset_name
                          [(''dataQualityAssertions'',
                            DataQualityAssertionsDatasetFacet (assertions (Some name)))]]
                       []])))))))"

definition parse_test ::
  "DbtArtifactProcessor \<Rightarrow> json \<Rightarrow> json \<Rightarrow> json \<Rightarrow> (string \<times> json) list \<Rightarrow> nat
     \<Rightarrow> error + DbtEvents" where
  "parse_test self manifest run_results catalog nodes n =
     bind (getitem run_results ''results'') (\<lambda>results.
     bind (iterate results) (\<lambda>records.
     bind (group_assertions manifest nodes records (\<lambda>k. [])) (\<lambda>assertions.
     bind (getitem manifest ''nodes'') (\<lambda>manifest_nodes.
     bind (items manifest_nodes) (\<lambda>kvs.
     test_events self assertions kvs n ([], []))))))"

section \<open>Namespaces\<close>

definition extract_namespace :: "json \<Rightarrow> error + fstring" where
  "extract_namespace profile =
     bind (getitem profile ''type'') (\<lambda>kind.
     if kind = JStr ''snowflake'' then
       bind (getitem profile ''account'') (\<lambda>account.
       Inr [Lit ''snowflake://'', Val account])
     else
       bind (getitem profile ''type'') (\<lambda>kind'.
       if kind' = JStr ''bigquery'' then Inr [Lit ''bigquery'']
       else bind (getitem profile ''type'') (\<lambda>kind''. Inl (UnsupportedAdapter kind''))))"

definition extract_dataset_namespace ::
  "DbtArtifactProcessor \<Rightarrow> json \<Rightarrow> error + DbtArtifactProcessor" where
  "extract_dataset_namespace self profile =
     bind (extract_namespace profile) (\<lambda>ns. Inr (self\<lparr>dataset_namespace := ns\<rparr>))"

text \<open>
  \<^verbatim>\<open>os.environ.get('OPENLINEAGE_NAMESPACE', self.extract_namespace(profile))\<close>: the default
  is an argument, so it is computed, and may raise, before the environment is read.
\<close>

definition extract_job_namespace ::
  "DbtArtifactProcessor \<Rightarrow> (string \<rightharpoonup> string) \<Rightarrow> json \<Rightarrow> error + DbtArtifactProcessor" where
  "extract_job_namespace self environ profile =
     bind (extract_namespace profile) (\<lambda>default.
     Inr (self\<lparr>job_namespace :=
            (case environ ''OPENLINEAGE_NAMESPACE'' of
               None \<Rightarrow> default
             | Some v \<Rightarrow> [Lit v])\<rparr>))"

section \<open>Facet richness, stated\<close>

text \<open>Where the schema fields of a node come from: the catalog entry if there is one.\<close>

definition schema_source :: "ModelNode \<Rightarrow> schema_field list \<Rightarrow> bool" where
  "schema_source node fs =
     (if truthy (catalog_node node)
      then bind (getitem (catalog_node node) ''columns'') (\<lambda>c.
           bind (values_of c) extract_catalog_fields) = Inr fs
      else bind (getitem (metadata_node node) ''columns'') (\<lambda>c.
           bind (values_of c) extract_metadata_fields) = Inr fs)"

text \<open>
  A dataset with full facets for a node: a data-source facet naming the dataset namespace
  and a schema facet whose fields come from the node, in that order.
\<close>

definition full_facets :: "DbtArtifactProcessor \<Rightarrow> ModelNode \<Rightarrow> dataset \<Rightarrow> bool" where
  "full_facets self node d =
     (\<exists>fields. ds_facets d = [(''dataSource'',
                 DataSourceDatasetFacet (dataset_namespace self) (dataset_namespace self)),
               (''schema'', SchemaDatasetFacet fields)]
            \<and> schema_source node fields)"

text \<open>
  What the events of a run with status \<^verbatim>\<open>error\<close> are built from: the datasets of the
  start event, the compiled statement of the output node, and the input datasets with
  facets. The run is translated when none of them raises.
\<close>

definition fail_event_builds :: "DbtArtifactProcessor \<Rightarrow> DbtRun \<Rightarrow> bool" where
  "fail_event_builds self run =
     (\<not> isl (mapE (\<lambda>node. node_to_dataset self node False) (inputs run))
      \<and> \<not> isl (output_dataset_of self (run_output run) False)
      \<and> \<not> isl (compiled_sql run)
      \<and> \<not> isl (mapE (\<lambda>node. node_to_dataset self node True) (inputs run)))"


section \<open>Example values\<close>

definition example_processor :: DbtArtifactProcessor where
  "example_processor =
     \<lparr>producer = ''https://github.com/OpenLineage/OpenLineage'',
      job_namespace = [Lit ''dbt''],
      dataset_namespace = [Lit ''snowflake://'', Val (JStr ''acme'')],
      skip_errors = False\<rparr>"

definition example_run :: "json \<Rightarrow> ModelNode option \<Rightarrow> DbtRun" where
  "example_run st out =
     \<lparr>started_at = Now, completed_at = Now, status = st, inputs = [], run_output = out,
      job_name = [Val (JStr ''db''), Lit ''.'', Val (JStr ''public''), Lit ''.'',
                  Val (JStr ''proj.customers'')],
      namespace = [Lit ''snowflake://'', Val (JStr ''acme'')],
      run_id = 0\<rparr>"

text \<open>
  A manifest with one model that reads one source, and the record of one execution of the
  model; no catalog.
\<close>

definition example_model_node :: json where
  "example_model_node =
     JObj [(''unique_id'', JStr ''model.proj.customers''),
           (''database'', JStr ''db''), (''schema'', JStr ''public''),
           (''name'', JStr ''customers''),
           (''columns'',
              JObj [(''id'', JObj [(''name'', JStr ''id''), (''data_type'', JStr ''int'')])]),
           (''compiled_sql'', JStr ''select 1'')]"

definition example_source_node :: json where
  "example_source_node =
     JObj [(''unique_id'', JStr ''source.proj.raw.orders''),
           (''database'', JStr ''db''), (''schema'', JStr ''raw''),
           (''name'', JStr ''orders''),
           (''columns'', JObj [])]"

definition example_manifest :: json where
  "example_manifest =
     JObj [(''nodes'', JObj [(''model.proj.customers'', example_model_node)]),
           (''sources'', JObj [(''source.proj.raw.orders'', example_source_node)]),
           (''parent_map'',
              JObj [(''model.proj.customers'', JArr [JStr ''source.proj.raw.orders''])])]"

definition example_nodes :: "(string \<times> json) list" where
  "example_nodes = [(''model.proj.customers'', example_model_node)]"

definition example_record :: "json \<Rightarrow> json" where
  "example_record st =
     JObj [(''unique_id'', JStr ''model.proj.customers''),
           (''status'', st),
           (''timing'',
              JArr [JObj [(''name'', JStr ''execute''),
                          (''started_at'', JStr ''2021-01-01T00:00:00Z''),
                          (''completed_at'', JStr ''2021-01-01T00:01:00Z'')]])]"

definition example_run_results :: "json \<Rightarrow> json" where
  "example_run_results st = JObj [(''results'', JArr [example_record st])]"

definition example_namespace :: fstring where
  "example_namespace = [Lit ''snowflake://'', Val (JStr ''acme'')]"

definition example_job_name :: fstring where
  "example_job_name =
     [Val (JStr ''db''), Lit ''.'', Val (JStr ''public''), Lit ''.'', Val (JStr ''proj.customers'')]"

definition example_input_name :: fstring where
  "example_input_name =
     [Val (JStr ''db''), Lit ''.'', Val (JStr ''raw''), Lit ''.'', Val (JStr ''orders'')]"

definition example_output_name :: fstring where
  "example_output_name =
     [Val (JStr ''db''), Lit ''.'', Val (JStr ''public''), Lit ''.'', Val (JStr ''customers'')]"

definition example_start :: run_event where
  "example_start =
     RunEvent START (FromArtifact (JStr ''2021-01-01T00:00:00Z'')) (Run 0)
       (Job [Lit ''dbt''] example_job_name [])
       ''https://github.com/OpenLineage/OpenLineage''
       [Dataset example_namespace example_input_name []]
       [OutputDataset example_namespace example_output_name [] []]"

definition example_full_inputs :: "dataset list" where
  "example_full_inputs =
     [Dataset example_namespace example_input_name
        [(''dataSource'', DataSourceDatasetFacet example_namespace example_namespace),
         (''schema'', SchemaDatasetFacet [])]]"

definition example_complete :: run_event where
  "example_complete =
     RunEvent COMPLETE (FromArtifact (JStr ''2021-01-01T00:01:00Z'')) (Run 0)
       (Job [Lit ''dbt''] example_job_name [(''sql'', SqlJobFacet (JStr ''select 1''))])
       ''https://github.com/OpenLineage/OpenLineage''
       example_full_inputs
       [OutputDataset example_namespace example_output_name
          [(''dataSource'', DataSourceDatasetFacet example_namespace example_namespace),
           (''schema'', SchemaDatasetFacet [SchemaField (JStr ''id'') (JStr ''int'') JNull])]
          []]"

definition example_fail :: run_event where
  "example_fail =
     RunEvent FAIL (FromArtifact (JStr ''2021-01-01T00:01:00Z'')) (Run 0)
       (Job [Lit ''dbt''] example_job_name [(''sql'', SqlJobFacet (JStr ''select 1''))])
       ''https://github.com/OpenLineage/OpenLineage''
       example_full_inputs
       []"

definition example_assembled :: "json \<Rightarrow> DbtRun" where
  "example_assembled st =
     \<lparr>started_at = FromArtifact (JStr ''2021-01-01T00:00:00Z''),
      completed_at = FromArtifact (JStr ''2021-01-01T00:01:00Z''),
      status = st,
      inputs = [\<lparr>metadata_node = example_source_node, catalog_node = JNull\<rparr>],
      run_output = Some \<lparr>metadata_node = example_model_node, catalog_node = JNull\<rparr>,
      job_name = example_job_name,
      namespace = example_namespace,
      run_id = 0\<rparr>"

definition example_profile :: json where
  "example_profile =
     JObj [(''type'', JStr ''snowflake''), (''account'', JStr ''acme''), (''user'', JStr ''dbt'')]"

text \<open>Catalog entries of the model: one with both statistics, one with the row count only.\<close>

definition example_catalog_columns :: json where
  "example_catalog_columns =
     JObj [(''id'', JObj [(''name'', JStr ''id''), (''type'', JStr ''NUMBER''),
                          (''index'', JInt 1)])]"

definition example_catalog_node :: json where
  "example_catalog_node =
     JObj [(''columns'', example_catalog_columns),
           (''stats'', JObj [(''row_count'', JObj [(''id'', JStr ''row_count''), (''value'', JInt 10)]),
                            (''bytes'', JObj [(''id'', JStr ''bytes''), (''value'', JInt 2048)])])]"

definition example_catalog_rows_only :: json where
  "example_catalog_rows_only =
     JObj [(''columns'', example_catalog_columns),
           (''stats'', JObj [(''row_count'', JObj [(''id'', JStr ''row_count''), (''value'', JInt 10)])])]"

definition example_catalog_facets :: "(string \<times> dataset_facet) list" where
  "example_catalog_facets =
     [(''dataSource'', DataSourceDatasetFacet example_namespace example_namespace),
      (''schema'', SchemaDatasetFacet [SchemaField (JStr ''id'') (JStr ''NUMBER'') JNull])]"

text \<open>Manifests and results of \<^verbatim>\<open>dbt test\<close>.\<close>

definition example_dataset_node :: "string \<Rightarrow> string \<Rightarrow> json" where
  "example_dataset_node uid nm =
     JObj [(''unique_id'', JStr uid), (''database'', JStr ''db''),
           (''schema'', JStr ''public''), (''name'', JStr nm)]"

definition example_test_node :: "string \<Rightarrow> string \<Rightarrow> string \<Rightarrow> json" where
  "example_test_node uid check col =
     JObj [(''unique_id'', JStr uid),
           (''test_metadata'',
              JObj [(''name'', JStr check),
                    (''kwargs'', JObj [(''column_name'', JStr col)])])]"

definition example_test_record :: "string \<Rightarrow> string \<Rightarrow> json" where
  "example_test_record uid st = JObj [(''unique_id'', JStr uid), (''status'', JStr st)]"

text \<open>
  A relationships test of the model \<^verbatim>\<open>orders\<close> that refers to the model \<^verbatim>\<open>customers\<close>: its
  parents are both models.
\<close>

definition relationships_nodes :: "(string \<times> json) list" where
  "relationships_nodes =
     [(''model.proj.customers'', example_dataset_node ''model.proj.customers'' ''customers''),
      (''model.proj.orders'', example_dataset_node ''model.proj.orders'' ''orders''),
      (''test.proj.relationships_orders'',
         example_test_node ''test.proj.relationships_orders'' ''relationships'' ''customer_id'')]"

definition relationships_manifest :: json where
  "relationships_manifest =
     JObj [(''nodes'', JObj relationships_nodes),
           (''sources'', JObj []),
           (''parent_map'',
              JObj [(''test.proj.relationships_orders'',
                     JArr [JStr ''model.proj.customers'', JStr ''model.proj.orders''])])]"

definition relationships_results :: json where
  "relationships_results =
     JObj [(''results'', JArr [example_test_record ''test.proj.relationships_orders'' ''pass''])]"

text \<open>Two tests of one model, one passed and one failed.\<close>

definition two_tests_nodes :: "(string \<times> json) list" where
  "two_tests_nodes =
     [(''model.proj.customers'', example_dataset_node ''model.proj.customers'' ''customers''),
      (''test.proj.not_null_id'', example_test_node ''test.proj.not_null_id'' ''not_null'' ''id''),
      (''test.proj.unique_id'', example_test_node ''test.proj.unique_id'' ''unique'' ''id'')]"

definition two_tests_manifest :: json where
  "two_tests_manifest =
     JObj [(''nodes'', JObj two_tests_nodes),
           (''sources'', JObj []),
           (''parent_map'',
              JObj [(''test.proj.not_null_id'', JArr [JStr ''model.proj.customers'']),
                    (''test.proj.unique_id'', JArr [JStr ''model.proj.customers''])])]"

definition two_tests_results :: json where
  "two_tests_results =
     JObj [(''results'', JArr [example_test_record ''test.proj.not_null_id'' ''pass'',
                              example_test_record ''test.proj.unique_id'' ''fail''])]"

text \<open>A test of a source: the source is in the manifest's table of sources.\<close>

definition source_test_nodes :: "(string \<times> json) list" where
  "source_test_nodes =
     [(''test.proj.not_null_raw_orders_id'',
         example_test_node ''test.proj.not_null_raw_orders_id'' ''not_null'' ''id'')]"

definition source_test_manifest :: json where
  "source_test_manifest =
     JObj [(''nodes'', JObj source_test_nodes),
           (''sources'', JObj [(''source.proj.raw.orders'', example_source_node)]),
           (''parent_map'',
              JObj [(''test.proj.not_null_raw_orders_id'', JArr [JStr ''source.proj.raw.orders''])])]"

definition source_test_results :: json where
  "source_test_results =
     JObj [(''results'', JArr [example_test_record ''test.proj.not_null_raw_orders_id'' ''pass''])]"

text \<open>A test whose only parent is a seed: neither a model nor a source.\<close>

definition orphan_test_nodes :: "(string \<times> json) list" where
  "orphan_test_nodes =
     [(''test.proj.not_null_countries_id'',
         example_test_node ''test.proj.not_null_countries_id'' ''not_null'' ''id'')]"

definition orphan_test_manifest :: json where
  "orphan_test_manifest =
     JObj [(''nodes'', JObj orphan_test_nodes),
           (''sources'', JObj []),
           (''parent_map'',
              JObj [(''test.proj.not_null_countries_id'', JArr [JStr ''seed.proj.countries''])])]"

definition orphan_test_results :: json where
  "orphan_test_results =
     JObj [(''results'', JArr [example_test_record ''test.proj.not_null_countries_id'' ''pass''])]"

text \<open>
  The pair of events of \<^verbatim>\<open>parse_test\<close> for the model with the given id and name, as the
  first pair emitted.
\<close>

definition example_test_job :: "string \<Rightarrow> job" where
  "example_test_job uid =
     Job [Lit ''dbt'']
       [Val (JStr ''db''), Lit ''.'', Val (JStr ''public''), Lit ''.'', Val (JStr uid)] []"

definition example_test_dataset :: "string \<Rightarrow> (string \<times> dataset_facet) list \<Rightarrow> dataset" where
  "example_test_dataset nm facets =
     Dataset example_namespace
       [Val (JStr ''db''), Lit ''.'', Val (JStr ''public''), Lit ''.'', Val (JStr nm)] facets"

definition example_test_start :: "string \<Rightarrow> string \<Rightarrow> run_event" where
  "example_test_start uid nm =
     RunEvent START Now (Run 0) (example_test_job uid)
       ''https://github.com/OpenLineage/OpenLineage''
       [example_test_dataset nm []] []"

definition example_test_complete :: "string \<Rightarrow> string \<Rightarrow> assertion list \<Rightarrow> run_event" where
  "example_test_complete uid nm checks =
     RunEvent COMPLETE Now (Run 0) (example_test_job uid)
       ''https://github.com/OpenLineage/OpenLineage''
       [example_test_dataset nm
          [(''dataQualityAssertions'', DataQualityAssertionsDatasetFacet checks)]] []"

section \<open>Basic facts\<close>

lemma bind_Inl [simp]: "bind (Inl e) f = Inl e"
  by (simp add: bind_def)

lemma bind_Inr [simp]: "bind (Inr v) f = f v"
  by (simp add: bind_def)

lemma bind_eq_Inr: "bind m f = Inr y \<longleftrightarrow> (\<exists>x. m = Inr x \<and> f x = Inr y)"
  by (cases m) simp_all


lemma inner_skipped:
  "status run = JStr ''skipped'' \<Longrightarrow> to_openlineage_events_inner self run = Inr None"
  by (simp add: to_openlineage_events_inner_def)

text \<open>The second loop of \<^verbatim>\<open>parse_run\<close> over a concatenation runs the two parts in turn.\<close>

lemma translate_runs_append:
  "translate_runs self (xs @ ys) acc =
     bind (translate_runs self xs acc)
       (\<lambda>ev. translate_runs self ys (starts ev, completes ev, fails ev))"
proof (induction xs arbitrary: acc)
  case Nil
  then show ?case by (cases acc) simp
next
  case (Cons x xs)
  show ?case
  proof (cases acc)
    case (fields s c f)
    show ?thesis
      unfolding fields
      by (cases "to_openlineage_events self x") (auto simp: Cons.IH split: option.splits)
  qed
qed

section \<open>Skipped runs\<close>

text \<open>
  Claim C7. A run whose status is \<^verbatim>\<open>skipped\<close> produces no event: the event builder returns
  \<^verbatim>\<open>None\<close> for it, with or without the error guard, and wherever the run stands in the
  list of runs the three event lists of \<^verbatim>\<open>parse_run\<close> are those of the list without it.
\<close>

theorem skipped_run_produces_nothing:
  assumes "status run = JStr ''skipped''"
  shows "to_openlineage_events_inner self run = Inr None
       \<and> to_openlineage_events self run = Inr None
       \<and> translate_runs self (before @ run # after) acc = translate_runs self (before @ after) acc"
proof -
  have a: "to_openlineage_events_inner self run = Inr None"
    using assms by (rule inner_skipped)
  then have b: "to_openlineage_events self run = Inr None"
    by (simp add: to_openlineage_events_def)
  have h: "translate_runs self (run # after) acc' = translate_runs self after acc'" for acc'
    by (cases acc') (simp add: b)
  have "translate_runs self (before @ run # after) acc = translate_runs self (before @ after) acc"
    by (simp only: translate_runs_append h)
  with a b show ?thesis by simp
qed

theorem skipped_run_produces_nothing_witness:
  "status (example_run (JStr ''skipped'') None) = JStr ''skipped''
   \<and> to_openlineage_events example_processor (example_run (JStr ''skipped'') None) = Inr None
   \<and> translate_runs example_processor ([] @ example_run (JStr ''skipped'') None # []) ([], [], [])
       = Inr \<lparr>starts = [], completes = [], fails = []\<rparr>"
proof -
  have s: "status (example_run (JStr ''skipped'') None) = JStr ''skipped''"
    by (simp add: example_run_def)
  from skipped_run_produces_nothing [OF s, of example_processor "[]" "[]" "([], [], [])"]
  show ?thesis using s by simp
qed

section \<open>The examples, evaluated\<close>

lemmas example_defs = example_model_node_def example_source_node_def example_manifest_def
  example_nodes_def example_record_def example_run_results_def example_processor_def
  example_namespace_def example_job_name_def example_input_name_def example_output_name_def
  example_start_def example_full_inputs_def example_complete_def example_fail_def
  example_assembled_def example_run_def

lemmas dataset_defs = node_to_dataset_def node_to_output_dataset_def output_dataset_of_def
  output_statistics_def
  extract_dataset_data_def extract_metadata_fields_def metadata_field_def
  extract_catalog_fields_def catalog_field_def

lemmas builder_defs = to_openlineage_events_def to_openlineage_events_inner_def compiled_sql_def

lemma example_assemble_run:
  "assemble_run example_processor example_manifest JNull example_nodes 0 (example_record st)
     = Inr (example_assembled st)"
  by (simp add: example_defs assemble_run_def get_timings_def removeprefix_def)

lemma example_success_result:
  "to_openlineage_events_inner example_processor (example_assembled (JStr ''success''))
     = Inr (Some \<lparr>start = example_start, complete = Some example_complete, fail = None\<rparr>)"
  by (simp add: example_defs builder_defs dataset_defs)

lemma example_error_result:
  "to_openlineage_events_inner example_processor (example_assembled (JStr ''error''))
     = Inr (Some \<lparr>start = example_start, complete = None, fail = Some example_fail\<rparr>)"
  by (simp add: example_defs builder_defs dataset_defs)

lemma example_parse_run:
  "parse_run example_processor example_manifest (example_run_results (JStr ''success''))
       JNull example_nodes 0
     = Inr \<lparr>starts = [example_start], completes = [example_complete], fails = []\<rparr>"
  by (simp add: parse_run_def example_run_results_def example_assemble_run
      to_openlineage_events_def example_success_result)

section \<open>The shape of a result\<close>

text \<open>
  Whatever the event builder returns was built along one of its two returning branches;
  with any other status it raises; and the loop of \<^verbatim>\<open>parse_run\<close> raises nothing but what
  the guard around the builder raises.
\<close>

lemma inner_result:
  assumes "to_openlineage_events_inner self run = Inr (Some r)"
  shows "\<exists>ins outs.
      mapE (\<lambda>node. node_to_dataset self node False) (inputs run) = Inr ins
    \<and> (if run_output run \<noteq> None
        then bind (output_dataset_of self (run_output run) False) (\<lambda>d. Inr [d])
        else Inr []) = Inr outs
    \<and> start r = RunEvent START (started_at run) (Run (run_id run))
                  (Job (job_namespace self) (job_name run) []) (producer self) ins outs
    \<and> ((status run = JStr ''success'' \<and>
         (\<exists>sql ins' out'.
            compiled_sql run = Inr sql
          \<and> mapE (\<lambda>node. node_to_dataset self node True) (inputs run) = Inr ins'
          \<and> output_dataset_of self (run_output run) True = Inr out'
          \<and> complete r = Some (RunEvent COMPLETE (completed_at run) (Run (run_id run))
                (Job (job_namespace self) (job_name run) [(''sql'', SqlJobFacet sql)])
                (producer self) ins' [out'])
          \<and> fail r = None))
       \<or> (status run = JStr ''error'' \<and>
         (\<exists>sql ins'.
            compiled_sql run = Inr sql
          \<and> mapE (\<lambda>node. node_to_dataset self node True) (inputs run) = Inr ins'
          \<and> complete r = None
          \<and> fail r = Some (RunEvent FAIL (completed_at run) (Run (run_id run))
                (Job (job_namespace self) (job_name run) [(''sql'', SqlJobFacet sql)])
                (producer self) ins' []))))"
  using assms
  unfolding to_openlineage_events_inner_def Let_def
  by (auto simp: bind_eq_Inr split: if_splits)

lemma inner_error_status:
  assumes "status run \<notin> {JStr ''success'', JStr ''error'', JStr ''skipped''}"
  shows "\<exists>e. to_openlineage_events_inner self run = Inl e"
  using assms
  unfolding to_openlineage_events_inner_def Let_def
  by (cases "mapE (\<lambda>node. node_to_dataset self node False) (inputs run)";
      cases "output_dataset_of self (run_output run) False") auto

lemma translate_runs_error:
  "translate_runs self xs acc = Inl e \<Longrightarrow> \<exists>e'. e = Wrapped e'"
proof (induction xs arbitrary: acc)
  case Nil
  then show ?case by (cases acc) simp
next
  case (Cons x xs)
  obtain s c f where acc: "acc = (s, c, f)" by (cases acc)
  show ?case
  proof (cases "to_openlineage_events self x")
    case (Inl a)
    then show ?thesis using Cons.prems acc
      by (auto simp: to_openlineage_events_def split: sum.splits if_splits)
  next
    case (Inr b)
    then show ?thesis using Cons.prems acc Cons.IH
      by (cases b) auto
  qed
qed

section \<open>Unrecognized statuses\<close>

text \<open>
  Claim C9. For a run whose status is none of \<^verbatim>\<open>success\<close>, \<^verbatim>\<open>error\<close>, \<^verbatim>\<open>skipped\<close> the
  event builder raises; the exception is the unrecognized-status error whenever the
  datasets of the start event, which are built first, can be built. With
  \<^verbatim>\<open>skip_errors\<close> false the guard re-raises it wrapped and the loop of \<^verbatim>\<open>parse_run\<close>
  stops with a wrapped error; with \<^verbatim>\<open>skip_errors\<close> true the guard returns \<^verbatim>\<open>None\<close> and
  the loop yields what it yields for the list of runs without this one.
\<close>

theorem unrecognized_status_handling:
  assumes "status run \<notin> {JStr ''success'', JStr ''error'', JStr ''skipped''}"
  shows "\<exists>e. to_openlineage_events_inner self run = Inl e
       \<and> ((\<exists>ins. mapE (\<lambda>node. node_to_dataset self node False) (inputs run) = Inr ins)
            \<and> (run_output run = None \<or> (\<exists>d. output_dataset_of self (run_output run) False = Inr d))
          \<longrightarrow> e = UnrecognizedStatus (status run))
       \<and> (\<not> skip_errors self \<longrightarrow>
             to_openlineage_events self run = Inl (Wrapped e)
           \<and> (\<forall>ev. translate_runs self before acc = Inr ev \<longrightarrow>
                 translate_runs self (before @ run # after) acc = Inl (Wrapped e))
           \<and> (\<exists>e'. translate_runs self (before @ run # after) acc = Inl (Wrapped e')))
       \<and> (skip_errors self \<longrightarrow>
             to_openlineage_events self run = Inr None
           \<and> translate_runs self (before @ run # after) acc
               = translate_runs self (before @ after) acc)"
proof -
  obtain e where e: "to_openlineage_events_inner self run = Inl e"
    using inner_error_status [OF assms] by blast
  have kind: "e = UnrecognizedStatus (status run)"
    if "\<exists>ins. mapE (\<lambda>node. node_to_dataset self node False) (inputs run) = Inr ins"
      and "run_output run = None \<or> (\<exists>d. output_dataset_of self (run_output run) False = Inr d)"
    using that e assms
    unfolding to_openlineage_events_inner_def Let_def
    by (auto split: if_splits)
  have strict: "to_openlineage_events self run = Inl (Wrapped e)" if "\<not> skip_errors self"
    using that e by (simp add: to_openlineage_events_def)
  have lenient: "to_openlineage_events self run = Inr None" if "skip_errors self"
    using that e by (simp add: to_openlineage_events_def)
  have abort: "translate_runs self (run # after) acc' = Inl (Wrapped e)"
    if "\<not> skip_errors self" for acc'
    using strict [OF that] by (cases acc') simp
  have drop: "translate_runs self (run # after) acc' = translate_runs self after acc'"
    if "skip_errors self" for acc'
    using lenient [OF that] by (cases acc') simp
  have abort_at: "translate_runs self (before @ run # after) acc = Inl (Wrapped e)"
    if "\<not> skip_errors self" and "translate_runs self before acc = Inr ev" for ev
    using that(2) abort [OF that(1)] by (simp only: translate_runs_append bind_Inr)
  have abort_any: "\<exists>e'. translate_runs self (before @ run # after) acc = Inl (Wrapped e')"
    if "\<not> skip_errors self"
  proof (cases "translate_runs self before acc")
    case (Inl a)
    then obtain e' where "a = Wrapped e'" using translate_runs_error by blast
    with Inl show ?thesis by (simp only: translate_runs_append bind_Inl) blast
  next
    case (Inr ev)
    from abort_at [OF that Inr] show ?thesis by blast
  qed
  have drop_at: "translate_runs self (before @ run # after) acc
       = translate_runs self (before @ after) acc" if "skip_errors self"
    using drop [OF that] by (simp only: translate_runs_append)
  show ?thesis
    using e kind strict lenient abort_at abort_any drop_at by blast
qed

theorem unrecognized_status_handling_witness:
  "status (example_run (JStr ''pending'') None)
       \<notin> {JStr ''success'', JStr ''error'', JStr ''skipped''}
   \<and> to_openlineage_events_inner example_processor (example_run (JStr ''pending'') None)
       = Inl (UnrecognizedStatus (JStr ''pending''))
   \<and> to_openlineage_events example_processor (example_run (JStr ''pending'') None)
       = Inl (Wrapped (UnrecognizedStatus (JStr ''pending'')))
   \<and> translate_runs example_processor ([] @ example_run (JStr ''pending'') None # []) ([], [], [])
       = Inl (Wrapped (UnrecognizedStatus (JStr ''pending'')))
   \<and> to_openlineage_events (example_processor\<lparr>skip_errors := True\<rparr>)
         (example_run (JStr ''pending'') None) = Inr None"
proof -
  let ?run = "example_run (JStr ''pending'') None"
  have s: "status ?run \<notin> {JStr ''success'', JStr ''error'', JStr ''skipped''}"
    by (simp add: example_run_def)
  have st: "status ?run = JStr ''pending''"
    by (simp add: example_run_def)
  have i: "\<exists>ins. mapE (\<lambda>node. node_to_dataset example_processor node False) (inputs ?run) = Inr ins"
    by (simp add: example_run_def)
  have out: "run_output ?run = None"
    by (simp add: example_run_def)
  have strict: "\<not> skip_errors example_processor"
    by (simp add: example_processor_def)
  have t: "translate_runs example_processor [] ([], [], [])
             = Inr \<lparr>starts = [], completes = [], fails = []\<rparr>"
    by simp
  from unrecognized_status_handling [OF s, of example_processor "[]" "([], [], [])" "[]"]
    i out strict t st
  have a: "to_openlineage_events_inner example_processor ?run
             = Inl (UnrecognizedStatus (JStr ''pending''))
         \<and> to_openlineage_events example_processor ?run
             = Inl (Wrapped (UnrecognizedStatus (JStr ''pending'')))
         \<and> translate_runs example_processor ([] @ ?run # []) ([], [], [])
             = Inl (Wrapped (UnrecognizedStatus (JStr ''pending'')))"
    by auto
  from unrecognized_status_handling
    [OF s, of "example_processor\<lparr>skip_errors := True\<rparr>" "[]" "([], [], [])" "[]"]
  have b: "to_openlineage_events (example_processor\<lparr>skip_errors := True\<rparr>) ?run = Inr None"
    by auto
  from s a b show ?thesis by blast
qed

section \<open>Assembled runs\<close>

lemma assemble_run_output:
  "assemble_run self manifest catalog nodes n record = Inr r \<Longrightarrow> run_output r \<noteq> None"
  unfolding assemble_run_def
  by (auto simp: bind_eq_Inr split: prod.splits)

lemma assemble_runs_output:
  "assemble_runs self manifest catalog nodes n records = Inr runs \<Longrightarrow>
     \<forall>r \<in> set runs. run_output r \<noteq> None"
proof (induction records arbitrary: n runs)
  case Nil
  then show ?case by simp
next
  case (Cons rcd rest)
  then show ?case
    by (auto simp: bind_eq_Inr dest: assemble_run_output)
qed

lemma start_has_one_output:
  assumes "to_openlineage_events self run = Inr (Some r)" and "run_output run \<noteq> None"
  shows "length (event_outputs (start r)) = 1"
proof -
  from assms(1) have "to_openlineage_events_inner self run = Inr (Some r)"
    by (auto simp: to_openlineage_events_def split: sum.splits if_splits)
  from inner_result [OF this] assms(2) show ?thesis
    by (auto simp: bind_eq_Inr)
qed

lemma translate_runs_one_output:
  assumes "translate_runs self runs acc = Inr ev"
    and "\<forall>r \<in> set runs. run_output r \<noteq> None"
    and "\<forall>s \<in> set (fst acc). length (event_outputs s) = 1"
  shows "\<forall>s \<in> set (starts ev). length (event_outputs s) = 1"
  using assms
proof (induction runs arbitrary: acc)
  case Nil
  then show ?case by (cases acc) auto
next
  case (Cons x xs)
  obtain s c f where acc: "acc = (s, c, f)" by (cases acc)
  from Cons.prems(1) acc obtain res where res: "to_openlineage_events self x = Inr res"
    by (cases "to_openlineage_events self x") auto
  show ?case
  proof (cases res)
    case None
    with Cons.prems acc res have "translate_runs self xs acc = Inr ev" by simp
    from Cons.IH [OF this] Cons.prems show ?thesis by simp
  next
    case (Some r)
    let ?acc' = "(s @ [start r],
            (case complete r of Some e \<Rightarrow> c @ [e] | None \<Rightarrow> c),
            (case complete r of
               Some e \<Rightarrow> f
             | None \<Rightarrow> (case fail r of Some e \<Rightarrow> f @ [e] | None \<Rightarrow> f)))"
    from Cons.prems(1) acc res Some have t: "translate_runs self xs ?acc' = Inr ev" by simp
    have "length (event_outputs (start r)) = 1"
      using start_has_one_output res Some Cons.prems(2) by simp
    with Cons.prems(3) acc have "\<forall>s \<in> set (fst ?acc'). length (event_outputs s) = 1"
      by auto
    from Cons.IH [OF t _ this] Cons.prems(2) show ?thesis by simp
  qed
qed

text \<open>
  Claim C10. Every run that \<^verbatim>\<open>parse_run\<close> assembles has an output node, and every start
  event that \<^verbatim>\<open>parse_run\<close> returns holds exactly one output dataset.
\<close>

theorem assembled_runs_have_output:
  "(assemble_runs self manifest catalog nodes n records = Inr runs \<longrightarrow>
      (\<forall>r \<in> set runs. run_output r \<noteq> None))
   \<and> (parse_run self manifest run_results catalog nodes n = Inr ev \<longrightarrow>
      (\<forall>s \<in> set (starts ev). length (event_outputs s) = 1))"
proof (intro conjI impI)
  assume "assemble_runs self manifest catalog nodes n records = Inr runs"
  then show "\<forall>r \<in> set runs. run_output r \<noteq> None" by (rule assemble_runs_output)
next
  assume "parse_run self manifest run_results catalog nodes n = Inr ev"
  then obtain recs rs where
    a: "assemble_runs self manifest catalog nodes n recs = Inr rs" and
    t: "translate_runs self rs ([], [], []) = Inr ev"
    by (auto simp: parse_run_def bind_eq_Inr)
  from translate_runs_one_output [OF t assemble_runs_output [OF a]]
  show "\<forall>s \<in> set (starts ev). length (event_outputs s) = 1" by simp
qed

theorem assembled_runs_have_output_witness:
  "assemble_runs example_processor example_manifest JNull example_nodes 0
       [example_record (JStr ''success'')] = Inr [example_assembled (JStr ''success'')]
   \<and> list_all (\<lambda>r. run_output r \<noteq> None) [example_assembled (JStr ''success'')]
   \<and> parse_run example_processor example_manifest (example_run_results (JStr ''success''))
         JNull example_nodes 0
       = Inr \<lparr>starts = [example_start], completes = [example_complete], fails = []\<rparr>
   \<and> list_all (\<lambda>s. length (event_outputs s) = 1) [example_start]"
proof -
  have a: "assemble_runs example_processor example_manifest JNull example_nodes 0
       [example_record (JStr ''success'')] = Inr [example_assembled (JStr ''success'')]"
    by (simp add: example_assemble_run)
  note p = example_parse_run
  from assembled_runs_have_output
    [of example_processor example_manifest JNull example_nodes 0
        "[example_record (JStr ''success'')]" "[example_assembled (JStr ''success'')]"
        "example_run_results (JStr ''success'')"
        "\<lparr>starts = [example_start], completes = [example_complete], fails = []\<rparr>"]
    a p
  show ?thesis by simp
qed

section \<open>Namespace resolution\<close>

lemma extract_namespace_cases:
  "extract_namespace profile =
     (case getitem profile ''type'' of
        Inl e \<Rightarrow> Inl e
      | Inr kind \<Rightarrow>
          if kind = JStr ''snowflake''
          then bind (getitem profile ''account'') (\<lambda>account. Inr [Lit ''snowflake://'', Val account])
          else if kind = JStr ''bigquery'' then Inr [Lit ''bigquery'']
          else Inl (UnsupportedAdapter kind))"
  by (cases "getitem profile ''type''") (simp_all add: extract_namespace_def)

text \<open>
  Claim C8. The namespace is a function of the profile alone. For the kind \<^verbatim>\<open>snowflake\<close> it
  is the f-string \<^verbatim>\<open>snowflake://{account}\<close> over the profile's account; for \<^verbatim>\<open>bigquery\<close> it
  is the literal \<^verbatim>\<open>bigquery\<close>; any other kind raises the unsupported-adapter error. Where the
  profile resolves, the dataset namespace is that resolution, and the job namespace is the
  value of \<^verbatim>\<open>OPENLINEAGE_NAMESPACE\<close> when the environment has it and the same resolution
  otherwise; where the profile does not resolve, both extractions raise.
\<close>

theorem namespace_resolution:
  "(\<forall>account. getitem profile ''type'' = Inr (JStr ''snowflake'')
        \<and> getitem profile ''account'' = Inr account \<longrightarrow>
        extract_namespace profile = Inr [Lit ''snowflake://'', Val account]
      \<and> (\<forall>a. account = JStr a \<longrightarrow>
            rendered [Lit ''snowflake://'', Val account] = Some (''snowflake://'' @ a)))
   \<and> (getitem profile ''type'' = Inr (JStr ''bigquery'') \<longrightarrow>
        extract_namespace profile = Inr [Lit ''bigquery'']
      \<and> rendered [Lit ''bigquery''] = Some ''bigquery'')
   \<and> (\<forall>kind. getitem profile ''type'' = Inr kind
        \<and> kind \<noteq> JStr ''snowflake'' \<and> kind \<noteq> JStr ''bigquery'' \<longrightarrow>
        extract_namespace profile = Inl (UnsupportedAdapter kind))
   \<and> (\<forall>ns. extract_namespace profile = Inr ns \<longrightarrow>
        extract_dataset_namespace self profile = Inr (self\<lparr>dataset_namespace := ns\<rparr>)
      \<and> extract_job_namespace self environ profile
          = Inr (self\<lparr>job_namespace :=
                   (case environ ''OPENLINEAGE_NAMESPACE'' of
                      Some v \<Rightarrow> [Lit v]
                    | None \<Rightarrow> ns)\<rparr>))
   \<and> (\<forall>e. extract_namespace profile = Inl e \<longrightarrow>
        extract_dataset_namespace self profile = Inl e
      \<and> extract_job_namespace self environ profile = Inl e)"
  by (auto simp: extract_namespace_cases extract_dataset_namespace_def
      extract_job_namespace_def split: option.splits)

theorem namespace_resolution_witness:
  "getitem example_profile ''type'' = Inr (JStr ''snowflake'')
   \<and> getitem example_profile ''account'' = Inr (JStr ''acme'')
   \<and> extract_namespace example_profile = Inr [Lit ''snowflake://'', Val (JStr ''acme'')]
   \<and> rendered [Lit ''snowflake://'', Val (JStr ''acme'')] = Some ''snowflake://acme''
   \<and> extract_job_namespace example_processor (Map.empty(''OPENLINEAGE_NAMESPACE'' \<mapsto> ''prod''))
         example_profile
       = Inr (example_processor\<lparr>job_namespace := [Lit ''prod'']\<rparr>)
   \<and> extract_job_namespace example_processor Map.empty example_profile
       = Inr (example_processor\<lparr>job_namespace := [Lit ''snowflake://'', Val (JStr ''acme'')]\<rparr>)
   \<and> extract_namespace (JObj [(''type'', JStr ''mysql'')])
       = Inl (UnsupportedAdapter (JStr ''mysql''))"
proof -
  have t: "getitem example_profile ''type'' = Inr (JStr ''snowflake'')"
    and a: "getitem example_profile ''account'' = Inr (JStr ''acme'')"
    by (simp_all add: example_profile_def)
  have m: "getitem (JObj [(''type'', JStr ''mysql'')]) ''type'' = Inr (JStr ''mysql'')"
    by simp
  note r1 = namespace_resolution
    [of example_profile example_processor "Map.empty(''OPENLINEAGE_NAMESPACE'' \<mapsto> ''prod'')"]
  note r2 = namespace_resolution [of example_profile example_processor Map.empty]
  note r3 = namespace_resolution [of "JObj [(''type'', JStr ''mysql'')]" example_processor Map.empty]
  from r1 t a have ns: "extract_namespace example_profile = Inr [Lit ''snowflake://'', Val (JStr ''acme'')]"
    by blast
  from r1 t a have rd: "rendered [Lit ''snowflake://'', Val (JStr ''acme'')] = Some ''snowflake://acme''"
    by simp
  from r1 ns have j1: "extract_job_namespace example_processor
        (Map.empty(''OPENLINEAGE_NAMESPACE'' \<mapsto> ''prod'')) example_profile
       = Inr (example_processor\<lparr>job_namespace := [Lit ''prod'']\<rparr>)"
    by simp
  from r2 ns have j2: "extract_job_namespace example_processor Map.empty example_profile
       = Inr (example_processor\<lparr>job_namespace := [Lit ''snowflake://'', Val (JStr ''acme'')]\<rparr>)"
    by simp
  from r3 m have u: "extract_namespace (JObj [(''type'', JStr ''mysql'')])
       = Inl (UnsupportedAdapter (JStr ''mysql''))"
    by simp
  from t a ns rd j1 j2 u show ?thesis by blast
qed

section \<open>Facets of start and terminal events\<close>

lemma mapE_list_all2:
  "mapE f xs = Inr ys \<Longrightarrow> list_all2 (\<lambda>x y. f x = Inr y) xs ys"
  by (induction xs arbitrary: ys) (auto simp: bind_eq_Inr)

lemma extract_dataset_data_plain:
  "extract_dataset_data self node False = Inr (a, b, c) \<Longrightarrow> c = []"
  by (auto simp: extract_dataset_data_def bind_eq_Inr)

lemma node_to_dataset_plain:
  "node_to_dataset self node False = Inr d \<Longrightarrow> ds_facets d = []"
  by (auto simp: node_to_dataset_def bind_eq_Inr dest: extract_dataset_data_plain)

lemma node_to_output_dataset_plain:
  "node_to_output_dataset self node False = Inr d \<Longrightarrow> out_facets d = [] \<and> outputFacets d = []"
  by (auto simp: node_to_output_dataset_def bind_eq_Inr dest: extract_dataset_data_plain)

lemma extract_dataset_data_full:
  assumes "extract_dataset_data self node True = Inr (a, b, c)"
  shows "\<exists>fields. c = [(''dataSource'',
                 DataSourceDatasetFacet (dataset_namespace self) (dataset_namespace self)),
               (''schema'', SchemaDatasetFacet fields)]
            \<and> schema_source node fields"
  using assms
  unfolding extract_dataset_data_def schema_source_def Let_def
  by (auto simp: bind_eq_Inr split: if_splits)

lemma node_to_dataset_full:
  assumes "node_to_dataset self node True = Inr d"
  shows "\<exists>fields. ds_facets d = [(''dataSource'',
                 DataSourceDatasetFacet (dataset_namespace self) (dataset_namespace self)),
               (''schema'', SchemaDatasetFacet fields)]
            \<and> schema_source node fields"
  using assms
  by (auto simp: node_to_dataset_def bind_eq_Inr dest: extract_dataset_data_full)

lemma full_inputs:
  assumes "mapE (\<lambda>node. node_to_dataset self node True) nodes = Inr ds"
  shows "list_all2 (full_facets self) nodes ds"
proof -
  from mapE_list_all2 [OF assms]
  have "list_all2 (\<lambda>node d. node_to_dataset self node True = Inr d) nodes ds" .
  then show ?thesis
    by (rule list_all2_mono) (auto simp: full_facets_def dest: node_to_dataset_full)
qed

lemma plain_inputs:
  "mapE (\<lambda>node. node_to_dataset self node False) nodes = Inr ds \<Longrightarrow>
     \<forall>d \<in> set ds. ds_facets d = []"
  by (induction nodes arbitrary: ds) (auto simp: bind_eq_Inr dest: node_to_dataset_plain)

text \<open>
  Claim C4. In whatever the event builder returns, the start event's job has no facet and
  its input and output datasets have empty facet dictionaries; a complete or fail event
  carries the SQL facet of the output node's compiled statement on its job, and its input
  datasets carry, node by node, the data-source facet and the schema facet.
\<close>

theorem facet_richness:
  assumes "to_openlineage_events_inner self run = Inr (Some r)"
  shows "job_facets (event_job (start r)) = []
       \<and> (\<forall>d \<in> set (event_inputs (start r)). ds_facets d = [])
       \<and> (\<forall>d \<in> set (event_outputs (start r)). out_facets d = [] \<and> outputFacets d = [])
       \<and> (\<forall>ev. complete r = Some ev \<or> fail r = Some ev \<longrightarrow>
             (\<exists>sql. compiled_sql run = Inr sql
                  \<and> job_facets (event_job ev) = [(''sql'', SqlJobFacet sql)])
           \<and> list_all2 (full_facets self) (inputs run) (event_inputs ev))"
proof -
  from inner_result [OF assms] obtain ins outs where
    i: "mapE (\<lambda>node. node_to_dataset self node False) (inputs run) = Inr ins" and
    out: "(if run_output run \<noteq> None
        then bind (output_dataset_of self (run_output run) False) (\<lambda>d. Inr [d])
        else Inr []) = Inr outs" and
    s: "start r = RunEvent START (started_at run) (Run (run_id run))
                  (Job (job_namespace self) (job_name run) []) (producer self) ins outs" and
    terminal: "(status run = JStr ''success'' \<and>
         (\<exists>sql ins' out'.
            compiled_sql run = Inr sql
          \<and> mapE (\<lambda>node. node_to_dataset self node True) (inputs run) = Inr ins'
          \<and> output_dataset_of self (run_output run) True = Inr out'
          \<and> complete r = Some (RunEvent COMPLETE (completed_at run) (Run (run_id run))
                (Job (job_namespace self) (job_name run) [(''sql'', SqlJobFacet sql)])
                (producer self) ins' [out'])
          \<and> fail r = None))
       \<or> (status run = JStr ''error'' \<and>
         (\<exists>sql ins'.
            compiled_sql run = Inr sql
          \<and> mapE (\<lambda>node. node_to_dataset self node True) (inputs run) = Inr ins'
          \<and> complete r = None
          \<and> fail r = Some (RunEvent FAIL (completed_at run) (Run (run_id run))
                (Job (job_namespace self) (job_name run) [(''sql'', SqlJobFacet sql)])
                (producer self) ins' [])))"
    by blast
  have a: "job_facets (event_job (start r)) = []" using s by simp
  have b: "\<forall>d \<in> set (event_inputs (start r)). ds_facets d = []"
    using plain_inputs [OF i] s by simp
  have c: "\<forall>d \<in> set (event_outputs (start r)). out_facets d = [] \<and> outputFacets d = []"
    using out s
    by (auto simp: bind_eq_Inr output_dataset_of_def split: if_splits option.splits
        dest: node_to_output_dataset_plain)
  have d: "(\<exists>sql. compiled_sql run = Inr sql
                  \<and> job_facets (event_job ev) = [(''sql'', SqlJobFacet sql)])
           \<and> list_all2 (full_facets self) (inputs run) (event_inputs ev)"
    if "complete r = Some ev \<or> fail r = Some ev" for ev
    using terminal that by (auto dest: full_inputs)
  from a b c d show ?thesis by blast
qed

theorem facet_richness_witness:
  "to_openlineage_events_inner example_processor (example_assembled (JStr ''success''))
     = Inr (Some \<lparr>start = example_start, complete = Some example_complete, fail = None\<rparr>)
   \<and> job_facets (event_job example_start) = []
   \<and> list_all (\<lambda>d. ds_facets d = []) (event_inputs example_start)
   \<and> list_all (\<lambda>d. out_facets d = [] \<and> outputFacets d = []) (event_outputs example_start)
   \<and> job_facets (event_job example_complete) = [(''sql'', SqlJobFacet (JStr ''select 1''))]
   \<and> list_all2 (full_facets example_processor)
        (inputs (example_assembled (JStr ''success''))) (event_inputs example_complete)"
proof -
  note r = facet_richness [OF example_success_result]
  have sql: "compiled_sql (example_assembled (JStr ''success'')) = Inr (JStr ''select 1'')"
    by (simp add: compiled_sql_def example_assembled_def example_model_node_def)
  from r have a: "job_facets (event_job example_start) = []" by simp
  from r have b: "list_all (\<lambda>d. ds_facets d = []) (event_inputs example_start)"
    by (simp add: list_all_iff)
  from r have c: "list_all (\<lambda>d. out_facets d = [] \<and> outputFacets d = [])
        (event_outputs example_start)"
    by (simp add: list_all_iff)
  from r sql have d: "job_facets (event_job example_complete)
        = [(''sql'', SqlJobFacet (JStr ''select 1''))]"
    by simp
  from r have e: "list_all2 (full_facets example_processor)
        (inputs (example_assembled (JStr ''success''))) (event_inputs example_complete)"
    by simp
  from example_success_result a b c d e show ?thesis by blast
qed

section \<open>Runs that ended in error\<close>

lemma not_isl_iff: "\<not> isl m \<longleftrightarrow> (\<exists>v. m = Inr v)"
  by (cases m) simp_all

lemma inner_error_returns:
  assumes "status run = JStr ''error''" and "fail_event_builds self run"
  shows "\<exists>ins outs sql ins'.
      compiled_sql run = Inr sql
    \<and> mapE (\<lambda>node. node_to_dataset self node True) (inputs run) = Inr ins'
    \<and> to_openlineage_events_inner self run =
        Inr (Some \<lparr>start = RunEvent START (started_at run) (Run (run_id run))
                      (Job (job_namespace self) (job_name run) []) (producer self) ins outs,
                   complete = None,
                   fail = Some (RunEvent FAIL (completed_at run) (Run (run_id run))
                      (Job (job_namespace self) (job_name run) [(''sql'', SqlJobFacet sql)])
                      (producer self) ins' [])\<rparr>)"
  using assms
  unfolding fail_event_builds_def to_openlineage_events_inner_def Let_def not_isl_iff
  by (auto simp: compiled_sql_def split: option.splits)

lemma inner_error_raises:
  assumes "status run = JStr ''error''" and "\<not> fail_event_builds self run"
  shows "\<exists>e. to_openlineage_events_inner self run = Inl e"
proof (cases "to_openlineage_events_inner self run")
  case (Inl a)
  then show ?thesis by blast
next
  case (Inr res)
  show ?thesis
  proof (cases res)
    case None
    with Inr assms(1) show ?thesis
      unfolding to_openlineage_events_inner_def Let_def
      by (auto simp: bind_eq_Inr split: if_splits)
  next
    case (Some r)
    from inner_result [OF Inr [unfolded Some]] assms(1)
    have "fail_event_builds self run"
      unfolding fail_event_builds_def not_isl_iff
      by (auto simp: bind_eq_Inr compiled_sql_def split: if_splits option.splits)
    with assms(2) show ?thesis by simp
  qed
qed

text \<open>
  A run with status \<^verbatim>\<open>error\<close> whose events can be built yields exactly one start event
  and exactly one fail event, and no complete event; both carry the run's id; the fail
  event lists no output; its job carries the SQL facet of the output node's compiled
  statement and its inputs carry full facets, and its job and inputs are those of the
  complete event that the same run would yield with status \<^verbatim>\<open>success\<close>. Where the events
  cannot be built, the builder raises and returns nothing.
\<close>

lemma error_run_events:
  assumes "status run = JStr ''error''"
  shows "(fail_event_builds self run \<longrightarrow>
           (\<exists>s f sql.
               to_openlineage_events_inner self run
                 = Inr (Some \<lparr>start = s, complete = None, fail = Some f\<rparr>)
             \<and> eventType s = START \<and> eventType f = FAIL
             \<and> runId (event_run s) = run_id run \<and> runId (event_run f) = run_id run
             \<and> event_outputs f = []
             \<and> compiled_sql run = Inr sql
             \<and> job_facets (event_job f) = [(''sql'', SqlJobFacet sql)]
             \<and> list_all2 (full_facets self) (inputs run) (event_inputs f)
             \<and> (\<forall>r' c. to_openlineage_events_inner self (run\<lparr>status := JStr ''success''\<rparr>)
                          = Inr (Some r') \<and> complete r' = Some c \<longrightarrow>
                        event_job c = event_job f \<and> event_inputs c = event_inputs f)))
       \<and> (\<not> fail_event_builds self run \<longrightarrow>
           (\<exists>e. to_openlineage_events_inner self run = Inl e))"
proof (intro conjI impI)
  assume b: "fail_event_builds self run"
  from inner_error_returns [OF assms b] obtain ins outs sql ins' where
    sql: "compiled_sql run = Inr sql" and
    ins': "mapE (\<lambda>node. node_to_dataset self node True) (inputs run) = Inr ins'" and
    res: "to_openlineage_events_inner self run =
        Inr (Some \<lparr>start = RunEvent START (started_at run) (Run (run_id run))
                      (Job (job_namespace self) (job_name run) []) (producer self) ins outs,
                   complete = None,
                   fail = Some (RunEvent FAIL (completed_at run) (Run (run_id run))
                      (Job (job_namespace self) (job_name run) [(''sql'', SqlJobFacet sql)])
                      (producer self) ins' [])\<rparr>)"
    by blast
  let ?s = "RunEvent START (started_at run) (Run (run_id run))
                      (Job (job_namespace self) (job_name run) []) (producer self) ins outs"
  let ?f = "RunEvent FAIL (completed_at run) (Run (run_id run))
                      (Job (job_namespace self) (job_name run) [(''sql'', SqlJobFacet sql)])
                      (producer self) ins' []"
  have same: "event_job c = event_job ?f \<and> event_inputs c = event_inputs ?f"
    if "to_openlineage_events_inner self (run\<lparr>status := JStr ''success''\<rparr>) = Inr (Some r')"
      and "complete r' = Some c" for r' c
  proof -
    from inner_result [OF that(1)] that(2) sql ins'
    show ?thesis by (auto simp: compiled_sql_def)
  qed
  have "to_openlineage_events_inner self run
                 = Inr (Some \<lparr>start = ?s, complete = None, fail = Some ?f\<rparr>)
             \<and> eventType ?s = START \<and> eventType ?f = FAIL
             \<and> runId (event_run ?s) = run_id run \<and> runId (event_run ?f) = run_id run
             \<and> event_outputs ?f = []
             \<and> compiled_sql run = Inr sql
             \<and> job_facets (event_job ?f) = [(''sql'', SqlJobFacet sql)]
             \<and> list_all2 (full_facets self) (inputs run) (event_inputs ?f)
             \<and> (\<forall>r' c. to_openlineage_events_inner self (run\<lparr>status := JStr ''success''\<rparr>)
                          = Inr (Some r') \<and> complete r' = Some c \<longrightarrow>
                        event_job c = event_job ?f \<and> event_inputs c = event_inputs ?f)"
    using res sql full_inputs [OF ins'] same by simp
  then show "\<exists>s f sql.
               to_openlineage_events_inner self run
                 = Inr (Some \<lparr>start = s, complete = None, fail = Some f\<rparr>)
             \<and> eventType s = START \<and> eventType f = FAIL
             \<and> runId (event_run s) = run_id run \<and> runId (event_run f) = run_id run
             \<and> event_outputs f = []
             \<and> compiled_sql run = Inr sql
             \<and> job_facets (event_job f) = [(''sql'', SqlJobFacet sql)]
             \<and> list_all2 (full_facets self) (inputs run) (event_inputs f)
             \<and> (\<forall>r' c. to_openlineage_events_inner self (run\<lparr>status := JStr ''success''\<rparr>)
                          = Inr (Some r') \<and> complete r' = Some c \<longrightarrow>
                        event_job c = event_job f \<and> event_inputs c = event_inputs f)"
    by blast
next
  assume "\<not> fail_event_builds self run"
  with assms show "\<exists>e. to_openlineage_events_inner self run = Inl e"
    by (rule inner_error_raises)
qed


lemma error_run_events_example:
  "status (example_assembled (JStr ''error'')) = JStr ''error''
   \<and> fail_event_builds example_processor (example_assembled (JStr ''error''))
   \<and> to_openlineage_events_inner example_processor (example_assembled (JStr ''error''))
       = Inr (Some \<lparr>start = example_start, complete = None, fail = Some example_fail\<rparr>)
   \<and> runId (event_run example_start) = runId (event_run example_fail)
   \<and> event_outputs example_fail = []
   \<and> event_job example_complete = event_job example_fail
   \<and> event_inputs example_complete = event_inputs example_fail"
proof -
  let ?run = "example_assembled (JStr ''error'')"
  have st: "status ?run = JStr ''error''"
    by (simp add: example_assembled_def)
  have b: "fail_event_builds example_processor ?run"
    by (simp add: fail_event_builds_def example_defs dataset_defs compiled_sql_def)
  have su: "?run\<lparr>status := JStr ''success''\<rparr> = example_assembled (JStr ''success'')"
    by (simp add: example_assembled_def)
  from error_run_events [OF st, of example_processor] b
  obtain s f where
    r: "to_openlineage_events_inner example_processor ?run
          = Inr (Some \<lparr>start = s, complete = None, fail = Some f\<rparr>)" and
    ids: "runId (event_run s) = run_id ?run" "runId (event_run f) = run_id ?run" and
    outs: "event_outputs f = []" and
    same: "\<forall>r' c. to_openlineage_events_inner example_processor (?run\<lparr>status := JStr ''success''\<rparr>)
                          = Inr (Some r') \<and> complete r' = Some c \<longrightarrow>
                        event_job c = event_job f \<and> event_inputs c = event_inputs f"
    by blast
  from r example_error_result have sf: "s = example_start" "f = example_fail"
    by simp_all
  from same su example_success_result
  have "event_job example_complete = event_job f \<and> event_inputs example_complete = event_inputs f"
    by simp
  with st b r ids outs sf show ?thesis by simp
qed

text \<open>
  Claim C6, at a run with status \<^verbatim>\<open>error\<close> and no output node. The start event guards
  the absent node (\<^verbatim>\<open>if run.output else []\<close>); the fail event reads
  \<^verbatim>\<open>run.output.metadata_node\<close> unguarded for its SQL facet, so the builder raises
  \<^verbatim>\<open>AttributeError\<close> and no event is produced, where the claim expects a start and a fail
  event.
\<close>

theorem error_without_output_raises:
  "status (example_run (JStr ''error'') None) = JStr ''error''
   \<and> run_output (example_run (JStr ''error'') None) = None
   \<and> to_openlineage_events_inner example_processor (example_run (JStr ''error'') None)
       = Inl AttributeError
   \<and> to_openlineage_events example_processor (example_run (JStr ''error'') None)
       = Inl (Wrapped AttributeError)"
  by (simp add: example_run_def example_processor_def builder_defs)

section \<open>Runs that succeeded\<close>

text \<open>
  Whatever the builder returns for a run with status \<^verbatim>\<open>success\<close> is one start and one
  complete event with the run's id; the run then has an output node, and both events list
  one output dataset.
\<close>

lemma success_run_events:
  assumes "status run = JStr ''success''"
    and "to_openlineage_events_inner self run = Inr res"
  shows "\<exists>s c out. res = Some \<lparr>start = s, complete = Some c, fail = None\<rparr>
       \<and> eventType s = START \<and> eventType c = COMPLETE
       \<and> runId (event_run s) = run_id run \<and> runId (event_run c) = run_id run
       \<and> run_output run = Some out
       \<and> length (event_outputs s) = 1 \<and> length (event_outputs c) = 1"
proof (cases res)
  case None
  with assms show ?thesis
    unfolding to_openlineage_events_inner_def Let_def
    by (auto simp: bind_eq_Inr split: if_splits)
next
  case (Some r)
  from inner_result [OF assms(2) [unfolded Some]] assms(1) Some
  show ?thesis
    by (cases r)
      (auto simp: bind_eq_Inr compiled_sql_def output_dataset_of_def split: option.splits)
qed

text \<open>
  Claim C5, at a run with status \<^verbatim>\<open>success\<close> and no output node. The start event guards
  the absent node (\<^verbatim>\<open>if run.output else []\<close>); the complete event reads
  \<^verbatim>\<open>run.output.metadata_node\<close> unguarded, so the builder raises \<^verbatim>\<open>AttributeError\<close>
  and no event is produced, where the claim expects a start and a complete event with empty
  output lists.
\<close>

theorem success_without_output_raises:
  "status (example_run (JStr ''success'') None) = JStr ''success''
   \<and> run_output (example_run (JStr ''success'') None) = None
   \<and> to_openlineage_events_inner example_processor (example_run (JStr ''success'') None)
       = Inl AttributeError
   \<and> to_openlineage_events example_processor (example_run (JStr ''success'') None)
       = Inl (Wrapped AttributeError)"
  by (simp add: example_run_def example_processor_def builder_defs)

section \<open>Output statistics\<close>

text \<open>
  Claim C1, as the code has it. Once the two counts are read, the output-statistics facet
  is in the dictionary exactly when the row count is true in Python's sense (present, not
  zero, not empty); its row count is that value coerced by \<^verbatim>\<open>int\<close>, and its size is the byte
  count coerced by \<^verbatim>\<open>int\<close> when that is true and the byte count as read (\<^verbatim>\<open>None\<close> when
  absent) otherwise. An output dataset carries that dictionary when it is built with facets
  from a node with a catalog entry, and an empty one otherwise. The byte count does not
  decide whether the facet is attached.
\<close>

theorem output_statistics_follow_row_count:
  "(\<forall>fs. output_statistics bytes rows = Inr fs \<longrightarrow>
        (fs \<noteq> [] \<longleftrightarrow> truthy rows)
      \<and> (truthy rows \<longrightarrow>
            (\<exists>n sz. py_int rows = Inr n
                 \<and> (if truthy bytes then \<exists>m. py_int bytes = Inr m \<and> sz = JInt m
                     else sz = bytes)
                 \<and> fs = [(''outputStatistics'', OutputStatisticsOutputDatasetFacet n sz)])))
   \<and> (\<forall>d. node_to_output_dataset self node has_facets = Inr d \<longrightarrow>
        (if has_facets \<and> truthy (catalog_node node)
         then output_statistics (stats_bytes (catalog_node node))
                (stats_rows (catalog_node node)) = Inr (outputFacets d)
         else outputFacets d = []))"
proof (intro conjI allI impI)
  fix fs
  assume "output_statistics bytes rows = Inr fs"
  then show "(fs \<noteq> []) = truthy rows"
    unfolding output_statistics_def
    by (auto simp: bind_eq_Inr split: if_splits)
next
  fix fs
  assume "output_statistics bytes rows = Inr fs" and "truthy rows"
  then show "\<exists>n sz. py_int rows = Inr n
                 \<and> (if truthy bytes then \<exists>m. py_int bytes = Inr m \<and> sz = JInt m
                     else sz = bytes)
                 \<and> fs = [(''outputStatistics'', OutputStatisticsOutputDatasetFacet n sz)]"
    unfolding output_statistics_def
    by (auto simp: bind_eq_Inr split: if_splits)
next
  fix d
  assume "node_to_output_dataset self node has_facets = Inr d"
  then show "if has_facets \<and> truthy (catalog_node node)
         then output_statistics (stats_bytes (catalog_node node))
                (stats_rows (catalog_node node)) = Inr (outputFacets d)
         else outputFacets d = []"
    unfolding node_to_output_dataset_def Let_def
    by (auto simp: bind_eq_Inr split: if_splits prod.splits)
qed

text \<open>
  A catalog entry with a row count and no byte count: the facet is attached, with size
  \<^verbatim>\<open>None\<close>.
\<close>

theorem output_statistics_without_bytes:
  "stats_bytes example_catalog_rows_only = JNull
   \<and> stats_rows example_catalog_rows_only = JInt 10
   \<and> node_to_output_dataset example_processor
        \<lparr>metadata_node = example_model_node, catalog_node = example_catalog_rows_only\<rparr> True
       = Inr (OutputDataset example_namespace example_output_name example_catalog_facets
               [(''outputStatistics'', OutputStatisticsOutputDatasetFacet 10 JNull)])"
  by (simp add: stats_bytes_def stats_rows_def example_catalog_rows_only_def
      example_catalog_columns_def example_catalog_facets_def example_defs dataset_defs)

lemma example_output_with_catalog:
  "node_to_output_dataset example_processor
        \<lparr>metadata_node = example_model_node, catalog_node = example_catalog_node\<rparr> True
       = Inr (OutputDataset example_namespace example_output_name example_catalog_facets
               [(''outputStatistics'', OutputStatisticsOutputDatasetFacet 10 (JInt 2048))])"
  by (simp add: stats_bytes_def stats_rows_def example_catalog_node_def
      example_catalog_columns_def example_catalog_facets_def example_defs dataset_defs)

theorem output_statistics_follow_row_count_witness:
  "node_to_output_dataset example_processor
        \<lparr>metadata_node = example_model_node, catalog_node = example_catalog_node\<rparr> True
       = Inr (OutputDataset example_namespace example_output_name example_catalog_facets
               [(''outputStatistics'', OutputStatisticsOutputDatasetFacet 10 (JInt 2048))])
   \<and> truthy example_catalog_node
   \<and> output_statistics (stats_bytes example_catalog_node) (stats_rows example_catalog_node)
       = Inr [(''outputStatistics'', OutputStatisticsOutputDatasetFacet 10 (JInt 2048))]
   \<and> truthy (stats_rows example_catalog_node)
   \<and> py_int (stats_rows example_catalog_node) = Inr 10"
proof -
  have t: "truthy example_catalog_node"
    by (simp add: example_catalog_node_def)
  note r = output_statistics_follow_row_count
    [of "stats_bytes example_catalog_node" "stats_rows example_catalog_node" example_processor
        "\<lparr>metadata_node = example_model_node, catalog_node = example_catalog_node\<rparr>" True]
  from r example_output_with_catalog t
  have o: "output_statistics (stats_bytes example_catalog_node) (stats_rows example_catalog_node)
       = Inr [(''outputStatistics'', OutputStatisticsOutputDatasetFacet 10 (JInt 2048))]"
    by simp
  from r o have "truthy (stats_rows example_catalog_node)" by blast
  moreover from r o this have "py_int (stats_rows example_catalog_node) = Inr 10"
    by auto
  ultimately show ?thesis using example_output_with_catalog t o by simp
qed

section \<open>The dataset a test validates\<close>

lemmas test_defs = example_dataset_node_def example_test_node_def example_test_record_def
  relationships_nodes_def relationships_manifest_def relationships_results_def
  two_tests_nodes_def two_tests_manifest_def two_tests_results_def
  source_test_nodes_def source_test_manifest_def source_test_results_def
  orphan_test_nodes_def orphan_test_manifest_def orphan_test_results_def
  example_test_job_def example_test_dataset_def example_test_start_def
  example_test_complete_def
  example_processor_def example_namespace_def example_output_name_def example_source_node_def



lemma two_tests_events:
  "parse_test example_processor two_tests_manifest two_tests_results JNull two_tests_nodes 0
     = Inr \<lparr>starts = [example_test_start ''model.proj.customers'' ''customers''],
            completes = [example_test_complete ''model.proj.customers'' ''customers''
                           [Assertion (JStr ''not_null'') True (JStr ''id''),
                            Assertion (JStr ''unique'') False (JStr ''id'')]],
            fails = []\<rparr>"
  by (simp add: parse_test_def group_assertion_def test_defs extract_dataset_data_def
      removeprefix_def Let_def)

lemma source_test_events:
  "parse_test example_processor source_test_manifest source_test_results JNull
       source_test_nodes 0
     = Inr \<lparr>starts = [], completes = [], fails = []\<rparr>"
  by (simp add: parse_test_def group_assertion_def test_defs extract_dataset_data_def
      removeprefix_def Let_def)










section \<open>Tests of sources\<close>

text \<open>
  Claim C3, at a test whose validated dataset is a source. The first loop of
  \<^verbatim>\<open>parse_test\<close> groups the assertion under the source's id; the second loop emits events for
  the keys of \<^verbatim>\<open>manifest['nodes']\<close> only, and a source is a key of \<^verbatim>\<open>manifest['sources']\<close>,
  so no event is emitted for it.
\<close>

theorem source_test_yields_no_events:
  "(case group_assertions source_test_manifest source_test_nodes
           [example_test_record ''test.proj.not_null_raw_orders_id'' ''pass''] (\<lambda>k. []) of
      Inl e \<Rightarrow> False
    | Inr grouped \<Rightarrow>
        grouped (Some ''source.proj.raw.orders'')
          = [Assertion (JStr ''not_null'') True (JStr ''id'')])
   \<and> getitem source_test_manifest ''sources''
       = Inr (JObj [(''source.proj.raw.orders'', example_source_node)])
   \<and> parse_test example_processor source_test_manifest source_test_results JNull
         source_test_nodes 0
       = Inr \<lparr>starts = [], completes = [], fails = []\<rparr>"
  using source_test_events
  by (simp add: group_assertion_def source_test_manifest_def source_test_nodes_def
      example_test_node_def example_test_record_def Let_def)

end
